theory Spec2Isabelle
  imports Complex_Main
begin

section \<open>Python and numpy conventions\<close>

text \<open>
  Node elevations and slopes are numpy float64 values. The flow-direction code only compares
  and negates them, both exact on floats, so they are modelled by reals (a NaN never enters
  the model). Integer arrays hold Python integers, modelled by \<open>int\<close>.
\<close>

datatype py_error = IndexError | ValueError | AttributeError

text \<open>
  Indexing a sequence of length \<open>n\<close> with an integer: a negative index counts from the
  end, anything outside \<open>-n .. n-1\<close> raises IndexError (here \<open>None\<close>).
\<close>

definition py_index :: "nat \<Rightarrow> int \<Rightarrow> nat option" where
  "py_index n i =
     (if 0 \<le> i \<and> i < int n then Some (nat i)
      else if - int n \<le> i \<and> i < 0 then Some (nat (i + int n))
      else None)"

definition index_of :: "nat \<Rightarrow> int \<Rightarrow> py_error + nat" where
  "index_of n i = (case py_index n i of None \<Rightarrow> Inl IndexError | Some j \<Rightarrow> Inr j)"

definition getitem :: "'a list \<Rightarrow> int \<Rightarrow> py_error + 'a" where
  "getitem xs i = (case py_index (length xs) i of None \<Rightarrow> Inl IndexError | Some j \<Rightarrow> Inr (xs ! j))"

text \<open>Sequencing of statements that may raise: the first exception ends the computation.\<close>

definition bind_err :: "'e + 'a \<Rightarrow> ('a \<Rightarrow> 'e + 'b) \<Rightarrow> 'e + 'b" where
  "bind_err m k = (case m of Inl e \<Rightarrow> Inl e | Inr x \<Rightarrow> k x)"

text \<open>
  \<open>UNDEFINED_INDEX = BAD_INDEX_VALUE\<close> is imported from the landlab package; its value is
  the one printed by the doctest of \<open>flow_directions\<close> (\<open>rl[3:8]\<close>).
\<close>

definition UNDEFINED_INDEX :: int where
  "UNDEFINED_INDEX = 2147483647"

section \<open>flow\_direction\_DN.py: flow\_directions\<close>

text \<open>The three arrays the link loop updates in place.\<close>

record fd_state =
  steepest_slope :: "real list"
  receiver :: "int list"
  receiver_link :: "int list"

text \<open>
  One iteration of \<open>for i in xrange(len(fromnode))\<close>. The conditions are evaluated in
  Python's order: \<open>link_slope[i]\<close> is read only after the elevation test succeeded, and
  \<open>active_links[i]\<close> only inside a taken branch.
\<close>

definition link_step ::
  "real list \<Rightarrow> int list \<Rightarrow> int list \<Rightarrow> int list \<Rightarrow> real list \<Rightarrow> nat \<Rightarrow> fd_state
     \<Rightarrow> py_error + fd_state" where
  "link_step elev active_links fromnode tonode link_slope i st =
     (let f = fromnode ! i in
      bind_err (getitem tonode (int i)) (\<lambda>t.
      bind_err (index_of (length elev) f) (\<lambda>fj.
      bind_err (index_of (length elev) t) (\<lambda>tj.
      bind_err (if elev ! fj > elev ! tj
                then bind_err (getitem link_slope (int i))
                       (\<lambda>s. Inr (s > steepest_slope st ! fj))
                else Inr False) (\<lambda>steeper_from.
      if steeper_from then
        bind_err (getitem link_slope (int i)) (\<lambda>s.
        bind_err (getitem active_links (int i)) (\<lambda>l.
          Inr (st\<lparr>receiver := (receiver st)[fj := t],
                  steepest_slope := (steepest_slope st)[fj := s],
                  receiver_link := (receiver_link st)[fj := l]\<rparr>)))
      else
        bind_err (if elev ! tj > elev ! fj
                  then bind_err (getitem link_slope (int i))
                         (\<lambda>s. Inr (- s > steepest_slope st ! tj))
                  else Inr False) (\<lambda>steeper_to.
        if steeper_to then
          bind_err (getitem link_slope (int i)) (\<lambda>s.
          bind_err (getitem active_links (int i)) (\<lambda>l.
            Inr (st\<lparr>receiver := (receiver st)[tj := f],
                    steepest_slope := (steepest_slope st)[tj := - s],
                    receiver_link := (receiver_link st)[tj := l]\<rparr>)))
        else Inr st))))))"

fun link_loop ::
  "real list \<Rightarrow> int list \<Rightarrow> int list \<Rightarrow> int list \<Rightarrow> real list \<Rightarrow> nat list \<Rightarrow> fd_state
     \<Rightarrow> py_error + fd_state" where
  "link_loop elev active_links fromnode tonode link_slope [] st = Inr st"
| "link_loop elev active_links fromnode tonode link_slope (i # is) st =
     (case link_step elev active_links fromnode tonode link_slope i st of
        Inl e \<Rightarrow> Inl e
      | Inr st' \<Rightarrow> link_loop elev active_links fromnode tonode link_slope is st')"

text \<open>
  The \<open>grid\<close> argument, as far as the dispatch code looks at it: whether it is a
  \<open>RasterModelGrid\<close>, and what \<open>grid.node_activelinks()\<close> returns (\<open>None\<close> when
  the object has no such method).
\<close>

record grid =
  is_RasterModelGrid :: bool
  node_activelinks :: "int list list option"

text \<open>
  The body of the \<open>try\<close>: its first statement is \<open>raise AttributeError\<close>, the two
  statements after it run only if that one returns normally.
\<close>

definition raster_dispatch :: "grid option \<Rightarrow> py_error + int list list" where
  "raster_dispatch g =
     (case (Inl AttributeError :: py_error + unit) of
        Inl e \<Rightarrow> Inl e
      | Inr _ \<Rightarrow>
          (case g of None \<Rightarrow> Inl AttributeError
           | Some gr \<Rightarrow>
               (case node_activelinks gr of None \<Rightarrow> Inl AttributeError
                | Some links \<Rightarrow>
                    if \<not> is_RasterModelGrid gr then Inl AttributeError else Inr links)))"

text \<open>
  \<open>receiver[baselevel_nodes] = node_id[baselevel_nodes]\<close>: the right-hand side is the
  list of normalised node ids, stored at those positions.
\<close>

definition baselevel_override :: "nat \<Rightarrow> int list \<Rightarrow> int list \<Rightarrow> py_error + int list" where
  "baselevel_override n bl rcv =
     (case those (map (py_index n) bl) of
        None \<Rightarrow> Inl IndexError
      | Some js \<Rightarrow> Inr (fold (\<lambda>j r. r[j := int j]) js rcv))"

text \<open>
  \<open>flow_directions\<close>. The vectorised branch (the \<open>else\<close> of the \<open>try\<close>) works on
  module globals and grid methods that are not part of the file; it is the parameter
  \<open>vectorized\<close>. The result is the tuple
  \<open>(receiver, steepest_slope, sink, receiver_link)\<close>.
\<close>

definition flow_directions ::
  "(grid option \<Rightarrow> real list \<Rightarrow> fd_state \<Rightarrow> py_error + fd_state)
     \<Rightarrow> real list \<Rightarrow> int list \<Rightarrow> int list \<Rightarrow> int list \<Rightarrow> real list
     \<Rightarrow> grid option \<Rightarrow> int list option
     \<Rightarrow> py_error + (int list \<times> real list \<times> int list \<times> int list)" where
  "flow_directions vectorized elev active_links fromnode tonode link_slope g baselevel_nodes =
     (let num_nodes = length elev;
          st0 = \<lparr>steepest_slope = replicate num_nodes 0,
                 receiver = map int [0..<num_nodes],
                 receiver_link = replicate num_nodes UNDEFINED_INDEX\<rparr>
      in
      case (case raster_dispatch g of
              Inl AttributeError \<Rightarrow>
                link_loop elev active_links fromnode tonode link_slope
                  [0..<length fromnode] st0
            | Inl e \<Rightarrow> Inl e
            | Inr links \<Rightarrow> vectorized g elev st0) of
        Inl e \<Rightarrow> Inl e
      | Inr st \<Rightarrow>
          (case (case baselevel_nodes of
                   None \<Rightarrow> Inr (receiver st)
                 | Some bl \<Rightarrow> baselevel_override num_nodes bl (receiver st)) of
             Inl e \<Rightarrow> Inl e
           | Inr rcv \<Rightarrow>
               Inr (rcv, steepest_slope st,
                    map int (filter (\<lambda>k. int k = rcv ! k) [0..<num_nodes]),
                    receiver_link st)))"

text \<open>
  Whether node \<open>k\<close> is addressed by an entry of \<open>baselevel_nodes\<close>; an entry indexes
  the arrays the Python way, so a negative entry \<open>b\<close> addresses node \<open>b + num_nodes\<close>.
\<close>

definition overridden :: "nat \<Rightarrow> int list option \<Rightarrow> nat \<Rightarrow> bool" where
  "overridden n bl k =
     (case bl of None \<Rightarrow> False | Some bs \<Rightarrow> \<exists>b\<in>set bs. py_index n b = Some k)"

text \<open>
  The invariant of the link loop. Every node is either untouched (its own receiver, slope 0)
  or has been given a receiver at a strictly lower elevation together with a positive slope.
\<close>

definition node_ok :: "real list \<Rightarrow> fd_state \<Rightarrow> nat \<Rightarrow> bool" where
  "node_ok elev st k =
     ((receiver st ! k = int k \<and> steepest_slope st ! k = 0) \<or>
      (\<exists>j. py_index (length elev) (receiver st ! k) = Some j \<and> elev ! j < elev ! k
           \<and> 0 < steepest_slope st ! k))"

definition fd_inv :: "real list \<Rightarrow> fd_state \<Rightarrow> bool" where
  "fd_inv elev st =
     (length (receiver st) = length elev \<and> length (steepest_slope st) = length elev \<and>
      (\<forall>k < length elev. node_ok elev st k))"

text \<open>What a taken branch of the loop body does: one donor node gets a new receiver.\<close>

definition donor_update :: "real list \<Rightarrow> fd_state \<Rightarrow> fd_state \<Rightarrow> bool" where
  "donor_update elev st st' =
     (\<exists>d r dj rj s l. py_index (length elev) d = Some dj \<and> py_index (length elev) r = Some rj
            \<and> elev ! rj < elev ! dj \<and> steepest_slope st ! dj < s
            \<and> st' = st\<lparr>receiver := (receiver st)[dj := r],
                       steepest_slope := (steepest_slope st)[dj := s],
                       receiver_link := (receiver_link st)[dj := l]\<rparr>)"

text \<open>A stand-in for the unreachable vectorised branch, for closed examples.\<close>

definition no_vectorized :: "grid option \<Rightarrow> real list \<Rightarrow> fd_state \<Rightarrow> py_error + fd_state" where
  "no_vectorized g elev st = Inl AttributeError"

text \<open>
  The ten-node network of the doctest (Braun and Willett 2012): elevations, link ends, and
  \<open>s = z[fn] - z[tn]\<close>. The decimal literals are taken as exact rationals; the slopes that
  compete at a node differ by at least 0.1, far above the rounding of float64 subtraction.
\<close>

definition bw_z :: "real list" where
  "bw_z = [2.4, 1.0, 2.2, 3.0, 0.0, 1.1, 2.0, 2.3, 3.1, 3.2]"

definition bw_fn :: "int list" where
  "bw_fn = [1, 4, 4, 0, 1, 2, 5, 1, 5, 6, 7, 7, 8, 6, 3, 3, 2, 0]"

definition bw_tn :: "int list" where
  "bw_tn = [4, 5, 7, 1, 2, 5, 6, 5, 7, 7, 8, 9, 9, 8, 8, 6, 3, 3]"

definition bw_s :: "real list" where
  "bw_s = map2 (\<lambda>f t. bw_z ! nat f - bw_z ! nat t) bw_fn bw_tn"

section \<open>flow\_direction\_DN.py: grid\_flow\_directions\<close>

text \<open>
  \<open>calculate_steepest_descent_across_cell_faces\<close> belongs to \<open>landlab.grid.raster_funcs\<close>,
  which is not part of the sources; its result for the grid (with \<open>return_node=True\<close>: the
  steepest gradient of each cell and the neighbour node in that direction) is a parameter,
  and so is \<open>grid.node_index_at_cells\<close>. The fancy-indexed assignments raise IndexError
  when a sink cell lies outside \<open>node_index_at_cells\<close> or \<open>receiver\<close>.
  The result is the pair \<open>(receiver, slope)\<close>.
\<close>

definition grid_flow_directions ::
  "(real list \<Rightarrow> real list \<times> int list) \<Rightarrow> int list \<Rightarrow> real list
     \<Rightarrow> py_error + (int list \<times> real list)" where
  "grid_flow_directions calculate_steepest_descent_across_cell_faces node_index_at_cells
       elevations =
     (let (slope, receiver) = calculate_steepest_descent_across_cell_faces elevations;
          sink_cell = filter (\<lambda>c. slope ! c \<ge> 0) [0..<length slope]
      in if (\<exists>c\<in>set sink_cell. length node_index_at_cells \<le> c)
            \<or> (\<exists>c\<in>set sink_cell. length receiver \<le> c)
         then Inl IndexError
         else Inr (fold (\<lambda>c r. r[c := node_index_at_cells ! c]) sink_cell receiver,
                   fold (\<lambda>c s. s[c := 0]) sink_cell slope))"

text \<open>
  The doctest of \<open>grid_flow_directions\<close>: the 4 by 5 grid, its six cells (nodes 6, 7, 8, 11,
  12, 13), and for each cell the smallest gradient towards its four neighbours with the
  neighbour attaining it (node 8 has no lower neighbour; its smallest gradient, 0, is
  towards node 7).
\<close>

definition doctest_z :: "real list" where
  "doctest_z = [5, 0, 5, 5, 5,  5, 1, 2, 2, 5,  5, 3, 4, 3, 5,  5, 5, 5, 5, 5]"

definition doctest_descent :: "real list \<Rightarrow> real list \<times> int list" where
  "doctest_descent z = ([-1, -1, 0, -2, -2, -1], [1, 6, 7, 6, 7, 8])"

definition doctest_node_index_at_cells :: "int list" where
  "doctest_node_index_at_cells = [6, 7, 8, 11, 12, 13]"

section \<open>generate\_overland\_flow\_DEM\_fields.py: float64 arithmetic\<close>

text \<open>
  Water depths, discharges and times are float64 values, and the claims about the time step
  and the depth update are decided by the rounding of single operations. A float64 value is
  a real number or one of \<open>inf\<close>, \<open>-inf\<close>, \<open>nan\<close>; every arithmetic operation
  computes the exact result and rounds it to the nearest float64, ties to even, as IEEE 754
  prescribes for \<open>+\<close>, \<open>-\<close>, \<open>*\<close>, \<open>/\<close> and \<open>sqrt\<close>. numpy raises nothing for a
  division by zero, an invalid operation or an overflow on float64 arrays and scalars: it
  returns \<open>inf\<close> or \<open>nan\<close> and issues a RuntimeWarning. The sign of a zero is not
  represented; a division by zero takes the divisor as \<open>+0\<close>, which is the zero that the
  sums, square roots and powers of the code below produce.
\<close>

datatype npfloat = Finite real | PosInf | NegInf | NaN

text \<open>Rounding of a real to the nearest integer, ties to the even one.\<close>

definition rne :: "real \<Rightarrow> int" where
  "rne t =
     (let f = \<lfloor>t\<rfloor> in
      if t - of_int f < 1 / 2 then f
      else if 1 / 2 < t - of_int f then f + 1
      else if even f then f else f + 1)"

text \<open>
  The exponent of the unit in the last place at \<open>x\<close>: 53 significant bits for a normal
  number (\<open>\<bar>x\<bar> \<ge> 2^-1022\<close>), the fixed spacing \<open>2^-1074\<close> for a subnormal one.
\<close>

definition ulp_exponent :: "real \<Rightarrow> int" where
  "ulp_exponent x = max \<lfloor>log 2 \<bar>x\<bar>\<rfloor> (- 1022) - 52"

definition overflow_threshold :: real where
  "overflow_threshold = 2 ^ 1024"

text \<open>
  The float64 nearest to the real \<open>x\<close>. It is also the value of a decimal literal of the
  code and of a number passed as an argument.
\<close>

definition round64 :: "real \<Rightarrow> npfloat" where
  "round64 x =
     (if x = 0 then Finite 0
      else let u = 2 powi ulp_exponent x;
               y = of_int (rne (x / u)) * u
           in if overflow_threshold \<le> y then PosInf
              else if y \<le> - overflow_threshold then NegInf
              else Finite y)"

text \<open>The reals that are float64 numbers.\<close>

definition float64 :: "real \<Rightarrow> bool" where
  "float64 x = (\<exists>m e. x = of_int m * 2 powi e \<and> \<bar>m\<bar> < 2 ^ 53 \<and> - 1074 \<le> e \<and> e \<le> 971)"

fun fl_neg :: "npfloat \<Rightarrow> npfloat" where
  "fl_neg (Finite x) = Finite (- x)"
| "fl_neg PosInf = NegInf"
| "fl_neg NegInf = PosInf"
| "fl_neg NaN = NaN"

fun fl_abs :: "npfloat \<Rightarrow> npfloat" where
  "fl_abs (Finite x) = Finite \<bar>x\<bar>"
| "fl_abs PosInf = PosInf"
| "fl_abs NegInf = PosInf"
| "fl_abs NaN = NaN"

text \<open>The sign of a float64 that is not \<open>nan\<close>, and the infinity of a given sign.\<close>

fun fl_sign :: "npfloat \<Rightarrow> real" where
  "fl_sign (Finite x) = sgn x"
| "fl_sign PosInf = 1"
| "fl_sign NegInf = - 1"
| "fl_sign NaN = 0"

definition sign_inf :: "real \<Rightarrow> npfloat" where
  "sign_inf s = (if 0 < s then PosInf else if s < 0 then NegInf else NaN)"

fun fl_add :: "npfloat \<Rightarrow> npfloat \<Rightarrow> npfloat" where
  "fl_add (Finite x) (Finite y) = round64 (x + y)"
| "fl_add NaN b = NaN"
| "fl_add a NaN = NaN"
| "fl_add PosInf NegInf = NaN"
| "fl_add NegInf PosInf = NaN"
| "fl_add PosInf b = PosInf"
| "fl_add NegInf b = NegInf"
| "fl_add a PosInf = PosInf"
| "fl_add a NegInf = NegInf"

definition fl_sub :: "npfloat \<Rightarrow> npfloat \<Rightarrow> npfloat" where
  "fl_sub a b = fl_add a (fl_neg b)"

text \<open>\<open>0 * inf\<close> is \<open>nan\<close>.\<close>

fun fl_mul :: "npfloat \<Rightarrow> npfloat \<Rightarrow> npfloat" where
  "fl_mul (Finite x) (Finite y) = round64 (x * y)"
| "fl_mul NaN b = NaN"
| "fl_mul a NaN = NaN"
| "fl_mul a b = sign_inf (fl_sign a * fl_sign b)"

text \<open>
  \<open>x / 0\<close> is \<open>inf\<close> or \<open>-inf\<close> by the sign of \<open>x\<close> and \<open>nan\<close> for \<open>0 / 0\<close>; a
  finite number divided by an infinity is 0; \<open>inf / inf\<close> is \<open>nan\<close>.
\<close>

fun fl_div :: "npfloat \<Rightarrow> npfloat \<Rightarrow> npfloat" where
  "fl_div (Finite x) (Finite y) = (if y = 0 then sign_inf x else round64 (x / y))"
| "fl_div NaN b = NaN"
| "fl_div a NaN = NaN"
| "fl_div (Finite x) b = Finite 0"
| "fl_div a (Finite y) = sign_inf (fl_sign a * (if y < 0 then - 1 else 1))"
| "fl_div a b = NaN"

fun fl_sqrt :: "npfloat \<Rightarrow> npfloat" where
  "fl_sqrt (Finite x) = (if x < 0 then NaN else round64 (sqrt x))"
| "fl_sqrt PosInf = PosInf"
| "fl_sqrt NegInf = NaN"
| "fl_sqrt NaN = NaN"

text \<open>Comparison: every comparison with \<open>nan\<close> is false.\<close>

fun fl_less :: "npfloat \<Rightarrow> npfloat \<Rightarrow> bool" where
  "fl_less (Finite x) (Finite y) = (x < y)"
| "fl_less NaN b = False"
| "fl_less a NaN = False"
| "fl_less a NegInf = False"
| "fl_less PosInf b = False"
| "fl_less NegInf b = True"
| "fl_less a PosInf = True"

text \<open>
  \<open>np.amax\<close>, \<open>np.amin\<close> and \<open>np.min\<close> of an array: a \<open>nan\<close> in the array is the
  result, an empty array raises ValueError.
\<close>

definition fl_max :: "npfloat \<Rightarrow> npfloat \<Rightarrow> npfloat" where
  "fl_max a b = (if a = NaN \<or> b = NaN then NaN else if fl_less a b then b else a)"

definition fl_min :: "npfloat \<Rightarrow> npfloat \<Rightarrow> npfloat" where
  "fl_min a b = (if a = NaN \<or> b = NaN then NaN else if fl_less b a then b else a)"

definition np_amax :: "npfloat list \<Rightarrow> py_error + npfloat" where
  "np_amax xs = (case xs of [] \<Rightarrow> Inl ValueError | x # ys \<Rightarrow> Inr (fold fl_max ys x))"

definition np_amin :: "npfloat list \<Rightarrow> py_error + npfloat" where
  "np_amin xs = (case xs of [] \<Rightarrow> Inl ValueError | x # ys \<Rightarrow> Inr (fold fl_min ys x))"

text \<open>
  Elementwise arithmetic on two one-dimensional arrays: an array of one element is
  broadcast, other shapes that differ raise ValueError.
\<close>

definition np_zip ::
  "(npfloat \<Rightarrow> npfloat \<Rightarrow> npfloat) \<Rightarrow> npfloat list \<Rightarrow> npfloat list \<Rightarrow> py_error + npfloat list" where
  "np_zip f xs ys =
     (if length xs = length ys then Inr (map2 f xs ys)
      else if length xs = 1 then Inr (map (f (hd xs)) ys)
      else if length ys = 1 then Inr (map (\<lambda>x. f x (hd ys)) xs)
      else Inl ValueError)"

section \<open>generate\_overland\_flow\_DEM\_fields.py: OverlandFlow\<close>

text \<open>
  The methods of the raster grid that the component calls. The grid classes are not part of
  the sources, so a grid is the record of these methods: they are parameters of everything
  below. \<open>calculate_flux_divergence_at_nodes\<close> gets the discharges and the array passed
  for its result; \<open>calculate_steepest_descent_on_nodes\<close> stands for the first component
  of the pair the method returns; \<open>get_active_cell_node_ids\<close> lists the interior nodes.
\<close>

record raster_grid =
  dx :: real
  max_of_link_end_node_values :: "npfloat list \<Rightarrow> npfloat list"
  calculate_gradients_at_active_links :: "npfloat list \<Rightarrow> npfloat list"
  calculate_flux_divergence_at_nodes :: "npfloat list \<Rightarrow> npfloat list \<Rightarrow> npfloat list"
  calculate_steepest_descent_on_nodes :: "npfloat list \<Rightarrow> npfloat list \<Rightarrow> npfloat list"
  get_active_cell_node_ids :: "nat list"
  number_of_nodes :: nat
  number_of_cells :: nat
  number_of_active_links :: nat

text \<open>
  The attributes of an \<open>OverlandFlow\<close> object that the loops read or write. The numbers
  that configure the object are kept as given (a real stands for the number written in the
  call or the input file) and become float64 values where the code computes with them; the
  arrays, the clock and the model duration, which the code computes, are float64.
  \<open>self.g\<close> and \<open>self.ten_thirds\<close> are set to 9.8 and 10/3 by \<open>__init__\<close> and never
  assigned again; they are the constants \<open>self_g\<close> and \<open>self_ten_thirds\<close>.
\<close>

record overland_flow =
  h_init :: real
  alpha :: real
  rho :: real
  m_n :: real
  m_n_sq :: real
  rainfall_intensity :: real
  rainfall_duration :: real
  model_duration :: npfloat
  elapsed_time :: npfloat
  h :: "npfloat list"
  q :: "npfloat list"
  tau :: "npfloat list"
  dqds :: "npfloat list"
  dhdt :: "npfloat list"

definition self_g :: real where
  "self_g = 9.8"

definition self_ten_thirds :: real where
  "self_ten_thirds = 10 / 3"

text \<open>
  The keyword arguments of \<open>__init__\<close>; \<open>None\<close> is an argument that was not given.
  The rainfall duration and intensity then come from the input file, whose two values are
  parameters. \<open>model_duration\<close> is \<open>None\<close> after \<open>__init__\<close> when it is not given;
  both loops assign it before they read it, and the record holds 0 until then.
\<close>

record init_kwds =
  kw_h_init :: "real option"
  kw_alpha :: "real option"
  kw_rho :: "real option"
  kw_Mannings_n :: "real option"
  kw_rainfall_intensity :: "real option"
  kw_rainfall_duration :: "real option"
  kw_model_duration :: "real option"

definition pop :: "'a option \<Rightarrow> 'a \<Rightarrow> 'a" where
  "pop v d = (case v of None \<Rightarrow> d | Some x \<Rightarrow> x)"

definition OverlandFlow_init :: "raster_grid \<Rightarrow> real \<Rightarrow> real \<Rightarrow> init_kwds \<Rightarrow> overland_flow" where
  "OverlandFlow_init grd file_rainfall_duration file_rainfall_intensity kwds =
     (let mn = pop (kw_Mannings_n kwds) 0.04;
          hi = pop (kw_h_init kwds) 0.001
      in \<lparr>h_init = hi,
          alpha = pop (kw_alpha kwds) 0.2,
          rho = pop (kw_rho kwds) 1000,
          m_n = mn,
          m_n_sq = mn * mn,
          rainfall_intensity = pop (kw_rainfall_intensity kwds) file_rainfall_intensity,
          rainfall_duration = pop (kw_rainfall_duration kwds) file_rainfall_duration,
          model_duration = round64 (pop (kw_model_duration kwds) 0),
          elapsed_time = Finite 0,
          h = replicate (number_of_nodes grd) (fl_add (Finite 0) (round64 hi)),
          q = replicate (number_of_active_links grd) (Finite 0),
          tau = replicate (number_of_nodes grd) (Finite 0),
          dqds = replicate (number_of_nodes grd) (Finite 0),
          dhdt = replicate (number_of_cells grd) (Finite 0)\<rparr>)"

text \<open>
  Line 402 (and 247): \<open>dtmax = self.alpha*grid.dx/np.sqrt(self.g*np.amax(self.h))\<close>.
\<close>

definition courant_step :: "raster_grid \<Rightarrow> overland_flow \<Rightarrow> py_error + npfloat" where
  "courant_step grd s =
     bind_err (np_amax (h s)) (\<lambda>deepest.
       Inr (fl_div (fl_mul (round64 (alpha s)) (round64 (dx grd)))
                   (fl_sqrt (fl_mul (round64 self_g) deepest))))"

text \<open>
  Lines 420-421 (and 264-265) for one link, as a formula over the reals: the unit discharge
  of Bates et al., eq. 11. The friction factor is the literal \<open>0.06*0.06\<close>.
\<close>

definition update_discharge :: "real \<Rightarrow> real \<Rightarrow> real \<Rightarrow> real \<Rightarrow> real" where
  "update_discharge dtmax hflow water_surface_slope qi =
     (qi - self_g * hflow * dtmax * water_surface_slope) /
     (1 + self_g * hflow * dtmax * 0.06 * 0.06 * \<bar>qi\<bar> / (hflow powr self_ten_thirds))"

text \<open>
  \<open>hflow**self.ten_thirds\<close>: the power with the float64 nearest to 10/3 as exponent, which
  is \<open>nan\<close> for a negative base. The result of the library's \<open>pow\<close> is taken as correctly
  rounded.
\<close>

fun finite_value :: "npfloat \<Rightarrow> real" where
  "finite_value (Finite x) = x"
| "finite_value PosInf = 0"
| "finite_value NegInf = 0"
| "finite_value NaN = 0"

fun fl_pow_ten_thirds :: "npfloat \<Rightarrow> npfloat" where
  "fl_pow_ten_thirds (Finite x) =
     (if x < 0 then NaN else round64 (x powr finite_value (round64 self_ten_thirds)))"
| "fl_pow_ten_thirds PosInf = PosInf"
| "fl_pow_ten_thirds NegInf = PosInf"
| "fl_pow_ten_thirds NaN = NaN"

text \<open>
  Lines 420-421 as the loop computes them, on the arrays and in float64, operation by
  operation in Python's order: products from the left, \<open>g*hflow*dtmax\<close> computed once for
  the numerator and once for the denominator.
\<close>

definition update_q ::
  "npfloat \<Rightarrow> npfloat list \<Rightarrow> npfloat list \<Rightarrow> npfloat list \<Rightarrow> py_error + npfloat list" where
  "update_q dtmax hflow water_surface_slope qs =
     (let ghd = map (\<lambda>x. fl_mul (fl_mul (round64 self_g) x) dtmax) hflow in
      bind_err (np_zip fl_mul ghd water_surface_slope) (\<lambda>drive.
      bind_err (np_zip fl_sub qs drive) (\<lambda>numerator.
      bind_err (np_zip fl_mul
                  (map (\<lambda>x. fl_mul (fl_mul x (round64 0.06)) (round64 0.06)) ghd)
                  (map fl_abs qs)) (\<lambda>friction.
      bind_err (np_zip fl_div friction (map fl_pow_ten_thirds hflow)) (\<lambda>ratio.
      np_zip fl_div numerator (map (fl_add (Finite 1)) ratio))))))"

text \<open>
  Lines 427-431: the rainfall stops after \<open>rainfall_duration\<close>, and
  \<open>self.dhdt = self.rainfall_intensity-self.dqds\<close>.
\<close>

definition current_rainfall :: "overland_flow \<Rightarrow> real" where
  "current_rainfall s =
     (if fl_less (round64 (rainfall_duration s)) (elapsed_time s) then 0
      else rainfall_intensity s)"

definition depth_rate :: "real \<Rightarrow> npfloat list \<Rightarrow> npfloat list" where
  "depth_rate ri dqds' = map (\<lambda>d. fl_sub (round64 ri) d) dqds'"

text \<open>
  The second time-step limiter. \<open>time_to_drain\<close> is
  \<open>-self.h[shallowing_locations]/self.dhdt[shallowing_locations]\<close>; reading \<open>self.h\<close> at a
  shallowing location beyond its end raises IndexError.
\<close>

definition shallowing_locations :: "npfloat list \<Rightarrow> nat list" where
  "shallowing_locations rate = filter (\<lambda>i. fl_less (rate ! i) (Finite 0)) [0..<length rate]"

definition time_to_drain :: "npfloat list \<Rightarrow> npfloat list \<Rightarrow> npfloat list" where
  "time_to_drain depth rate =
     map (\<lambda>i. fl_div (fl_neg (depth ! i)) (rate ! i)) (shallowing_locations rate)"

text \<open>
  Lines 435-441 of \<open>flow_across_grid\<close>: the value of \<open>dt\<close> that the depth update and
  the clock use. The \<open>dt = min(dtmax, self.model_duration)\<close> of line 405 is assigned again
  here, in either branch, before it is read.
\<close>

definition limit_dt_across_grid ::
  "real \<Rightarrow> npfloat \<Rightarrow> npfloat \<Rightarrow> npfloat list \<Rightarrow> npfloat list \<Rightarrow> py_error + npfloat" where
  "limit_dt_across_grid a dtmax duration depth rate =
     bind_err (np_amin rate) (\<lambda>lowest.
       if fl_less lowest (Finite 0) then
         (if \<exists>i\<in>set (shallowing_locations rate). length depth \<le> i then Inl IndexError
          else bind_err (np_amin (time_to_drain depth rate)) (\<lambda>soonest.
                 let dtmax2 = fl_mul (round64 a) soonest
                 in np_amin [dtmax, dtmax2, duration]))
       else Inr dtmax)"

text \<open>
  Line 444:
  \<open>self.h[self.interior_nodes] = self.h[self.interior_nodes] + self.dhdt[self.interior_nodes]*dt\<close>.
\<close>

definition update_depth ::
  "nat list \<Rightarrow> npfloat \<Rightarrow> npfloat list \<Rightarrow> npfloat list \<Rightarrow> py_error + npfloat list" where
  "update_depth interior_nodes dt depth rate =
     (if \<exists>i\<in>set interior_nodes. length depth \<le> i \<or> length rate \<le> i then Inl IndexError
      else Inr (fold (\<lambda>i d. d[i := fl_add (depth ! i) (fl_mul (rate ! i) dt)])
                  interior_nodes depth))"

text \<open>
  Lines 455-460: the shear stress is recomputed when \<open>self.q.any()*grid.dx > 0.2\<close>, and
  its negative entries are set to 0.
\<close>

definition update_tau ::
  "raster_grid \<Rightarrow> overland_flow \<Rightarrow> npfloat list \<Rightarrow> npfloat list \<Rightarrow> npfloat list
     \<Rightarrow> py_error + npfloat list" where
  "update_tau grd s q' slopes_at_node h' =
     bind_err (if fl_less (round64 0.2)
                    (if \<exists>x\<in>set q'. x \<noteq> Finite 0 then round64 (dx grd) else Finite 0)
               then np_zip fl_mul
                      (map (fl_mul (fl_mul (round64 (rho s)) (round64 self_g))) slopes_at_node) h'
               else Inr (tau s)) (\<lambda>tau'.
       Inr (map (\<lambda>t. if fl_less t (Finite 0) then Finite 0 else t) tau'))"

text \<open>
  The body of the \<open>while\<close> loop of \<open>flow_across_grid\<close> (lines 401-463) for the
  elevations \<open>z\<close>, in two parts. Lines 423-463, from the flux divergence on:
\<close>

definition advance_depth ::
  "raster_grid \<Rightarrow> npfloat list \<Rightarrow> overland_flow \<Rightarrow> npfloat \<Rightarrow> npfloat list \<Rightarrow> npfloat list
     \<Rightarrow> py_error + overland_flow" where
  "advance_depth grd z s dtmax water_surface_slope q' =
     (let dqds' = calculate_flux_divergence_at_nodes grd q' (dqds s);
          ri = current_rainfall s;
          dhdt' = depth_rate ri dqds'
      in
      bind_err (limit_dt_across_grid (alpha s) dtmax (model_duration s) (h s) dhdt') (\<lambda>dt.
      bind_err (update_depth (get_active_cell_node_ids grd) dt (h s) dhdt') (\<lambda>h'.
      bind_err (np_zip fl_add h' z) (\<lambda>w.
      let slopes_at_node = calculate_steepest_descent_on_nodes grd w water_surface_slope in
      bind_err (update_tau grd s q' slopes_at_node h') (\<lambda>tau'.
      Inr (s\<lparr>q := q', dqds := dqds', rainfall_intensity := ri,
              dhdt := dhdt', h := h', tau := tau',
              elapsed_time := fl_add (elapsed_time s) dt\<rparr>))))))"

text \<open>
  Lines 402-421, and the whole pass. Line 405 is Python's \<open>min\<close> of two floats, which
  raises nothing; its result is not read.
\<close>

definition across_grid_step ::
  "raster_grid \<Rightarrow> npfloat list \<Rightarrow> overland_flow \<Rightarrow> py_error + overland_flow" where
  "across_grid_step grd z s =
     bind_err (courant_step grd s) (\<lambda>dtmax.
     let dt = (if fl_less (model_duration s) dtmax then model_duration s else dtmax);
         zmax = max_of_link_end_node_values grd z
     in
     bind_err (np_zip fl_add (h s) z) (\<lambda>w.
     bind_err (np_zip fl_sub (max_of_link_end_node_values grd w) zmax) (\<lambda>hflow.
     let water_surface_slope = calculate_gradients_at_active_links grd w in
     bind_err (update_q dtmax hflow water_surface_slope (q s)) (\<lambda>q'.
       advance_depth grd z s dtmax water_surface_slope q'))))"

text \<open>
  The \<open>while\<close> loop of \<open>flow_across_grid\<close>. \<open>None\<close> is a loop that never exits.
\<close>

partial_function (option) across_grid_loop ::
  "raster_grid \<Rightarrow> npfloat list \<Rightarrow> overland_flow \<Rightarrow> (py_error + overland_flow) option" where
  "across_grid_loop grd z s =
     (if fl_less (elapsed_time s) (model_duration s) then
        (case across_grid_step grd z s of
           Inl e \<Rightarrow> Some (Inl e)
         | Inr s' \<Rightarrow> across_grid_loop grd z s')
      else Some (Inr s))"

text \<open>
  The keyword arguments of \<open>flow_across_grid\<close> and its lines 384-396, which set the
  times before the loop starts.
\<close>

record run_kwds =
  run_rainfall_duration :: "real option"
  run_rainfall_intensity :: "real option"
  run_interstorm_duration :: "real option"
  run_model_duration :: "real option"
  run_elapsed_time :: "real option"

definition flow_across_grid_setup :: "raster_grid \<Rightarrow> run_kwds \<Rightarrow> overland_flow \<Rightarrow> overland_flow" where
  "flow_across_grid_setup grd kwds s =
     (let rd = pop (run_rainfall_duration kwds) (rainfall_duration s);
          ri = pop (run_rainfall_intensity kwds) (rainfall_intensity s);
          interstorm_duration = pop (run_interstorm_duration kwds) 0;
          md = pop (run_model_duration kwds) rd
      in s\<lparr>rainfall_duration := rd, rainfall_intensity := ri,
            elapsed_time := round64 (pop (run_elapsed_time kwds) 0),
            model_duration := fl_add (round64 md) (round64 interstorm_duration),
            dqds := replicate (number_of_nodes grd) (Finite 0)\<rparr>)"

text \<open>
  \<open>flow_across_grid\<close>: the setup and the loop. (After the loop the depths, stresses and
  discharges are copied into the fields of the grid, which the model does not hold.)
\<close>

definition flow_across_grid ::
  "raster_grid \<Rightarrow> npfloat list \<Rightarrow> run_kwds \<Rightarrow> overland_flow
     \<Rightarrow> (py_error + overland_flow) option" where
  "flow_across_grid grd z kwds s = across_grid_loop grd z (flow_across_grid_setup grd kwds s)"

text \<open>
  A 3 by 3 raster with all four edges closed: nine nodes, node 4 the only interior node, no
  active link. Every link array is empty, the flux divergence and the node slopes are zero.
\<close>

definition closed_raster :: "real \<Rightarrow> raster_grid" where
  "closed_raster spacing =
     \<lparr>dx = spacing,
      max_of_link_end_node_values = (\<lambda>v. []),
      calculate_gradients_at_active_links = (\<lambda>v. []),
      calculate_flux_divergence_at_nodes = (\<lambda>v out. replicate 9 (Finite 0)),
      calculate_steepest_descent_on_nodes = (\<lambda>v sl. replicate 9 (Finite 0)),
      get_active_cell_node_ids = [4],
      number_of_nodes = 9,
      number_of_cells = 1,
      number_of_active_links = 0\<rparr>"

definition no_kwds :: init_kwds where
  "no_kwds = \<lparr>kw_h_init = None, kw_alpha = None, kw_rho = None, kw_Mannings_n = None,
              kw_rainfall_intensity = None, kw_rainfall_duration = None,
              kw_model_duration = None\<rparr>"

definition no_run_kwds :: run_kwds where
  "no_run_kwds = \<lparr>run_rainfall_duration = None, run_rainfall_intensity = None,
                  run_interstorm_duration = None, run_model_duration = None,
                  run_elapsed_time = None\<rparr>"

definition flat_z :: "npfloat list" where
  "flat_z = replicate 9 (Finite 0)"

text \<open>
  The update of claim C3, in the words of the specification: the same formula with the
  square of a roughness coefficient \<open>n\<close> in the friction term.
\<close>

definition spec_update_discharge :: "real \<Rightarrow> real \<Rightarrow> real \<Rightarrow> real \<Rightarrow> real \<Rightarrow> real" where
  "spec_update_discharge n dt_stability hflow slope qi =
     (qi - self_g * hflow * dt_stability * slope) /
     (1 + self_g * hflow * dt_stability * n\<^sup>2 * \<bar>qi\<bar> / (hflow powr (10 / 3)))"

text \<open>
  Objects for the examples, all on the closed 3 by 3 raster with 10 m spacing and flat
  ground: the default object with an input file of 1 s of rain at intensity 0; the same
  with \<open>h_init = 0\<close>; and an object with \<open>alpha = 1\<close> and an input file of 10 s with a
  net loss of 1 mm/s. \<open>default_run\<close> and \<open>dry_run\<close> are the first two as
  \<open>flow_across_grid\<close> without keyword arguments sets them up before its loop.
\<close>

definition default_object :: overland_flow where
  "default_object = OverlandFlow_init (closed_raster 10) 1 0 no_kwds"

definition dry_object :: overland_flow where
  "dry_object = OverlandFlow_init (closed_raster 10) 1 0 (no_kwds\<lparr>kw_h_init := Some 0\<rparr>)"

definition loss_object :: overland_flow where
  "loss_object = OverlandFlow_init (closed_raster 10) 10 (- (1 / 1000))
                   (no_kwds\<lparr>kw_alpha := Some 1\<rparr>)"

definition default_run :: overland_flow where
  "default_run = flow_across_grid_setup (closed_raster 10) no_run_kwds default_object"

definition dry_run :: overland_flow where
  "dry_run = flow_across_grid_setup (closed_raster 10) no_run_kwds dry_object"

text \<open>
  The float64 values of the numbers in the examples: the nearest float64 to 0.001 (the
  default \<open>h_init\<close>), to 9.8 (\<open>self.g\<close>), to 0.2 (the default \<open>alpha\<close>) and to
  0.0317; the rounded product \<open>self.g * 0.001\<close>; the rounded quotient \<open>0.001 / 0.0317\<close>
  and the rounded product of that quotient with 0.0317.
\<close>

definition h_init64 :: real where
  "h_init64 = 1152921504606847 / 2 ^ 60"

definition g64 :: real where
  "g64 = 2758454771764429 / 2 ^ 48"

definition alpha64 :: real where
  "alpha64 = 3602879701896397 / 2 ^ 54"

definition rate64 :: real where
  "rate64 = 4568451462004631 / 2 ^ 57"

definition g_h_init64 :: real where
  "g_h_init64 = 5649315372573551 / 2 ^ 59"

definition drain64 :: real where
  "drain64 = 4546220444033309 / 2 ^ 57"

definition lost64 :: real where
  "lost64 = 4611686018427389 / 2 ^ 62"

text \<open>
  The default object with \<open>alpha = 1\<close>, set up by \<open>flow_across_grid\<close>, and the depth
  rates of a pass in which the interior node loses 0.0317 m/s and no other node changes.
\<close>

definition alpha_one_run :: overland_flow where
  "alpha_one_run = flow_across_grid_setup (closed_raster 10) no_run_kwds
                     (OverlandFlow_init (closed_raster 10) 1 0 (no_kwds\<lparr>kw_alpha := Some 1\<rparr>))"

definition draining_rate :: "npfloat list" where
  "draining_rate = (replicate 9 (Finite 0))[4 := round64 (- 0.0317)]"

text \<open>
  An object on which such a pass is the first one: \<open>alpha = 1\<close> and an input file with a
  net loss of 0.0317 m/s, which is then the depth rate of every node.
\<close>

definition drain_object :: overland_flow where
  "drain_object = OverlandFlow_init (closed_raster 10) 1 (- 0.0317)
                    (no_kwds\<lparr>kw_alpha := Some 1\<rparr>)"

text \<open>
  The states of the run of \<open>loss_object\<close>: before the first pass, and after it, when the
  interior node is dry, the eight boundary nodes keep their depth and the clock shows 1 s.
\<close>

definition loss_start :: "overland_flow \<Rightarrow> bool" where
  "loss_start s =
     (alpha s = 1 \<and> rainfall_intensity s = - (1 / 1000) \<and> rainfall_duration s = 10
      \<and> model_duration s = Finite 10 \<and> elapsed_time s = Finite 0 \<and> q s = []
      \<and> h s = replicate 9 (Finite h_init64))"

definition stalled_state :: "overland_flow \<Rightarrow> bool" where
  "stalled_state s =
     (alpha s = 1 \<and> rainfall_intensity s = - (1 / 1000) \<and> rainfall_duration s = 10
      \<and> model_duration s = Finite 10 \<and> elapsed_time s = Finite 1 \<and> q s = []
      \<and> h s = (replicate 9 (Finite h_init64))[4 := Finite 0])"

text \<open>
  An all-dry object with a net loss (\<open>h_init = 0\<close>, the default \<open>alpha\<close>, an input file
  of 10 s at -1 mm/s), and the state that its run never leaves.
\<close>

definition dry_loss_object :: overland_flow where
  "dry_loss_object = OverlandFlow_init (closed_raster 10) 10 (- (1 / 1000))
                       (no_kwds\<lparr>kw_h_init := Some 0\<rparr>)"

definition dry_loss_state :: "overland_flow \<Rightarrow> bool" where
  "dry_loss_state s =
     (alpha s = 1 / 5 \<and> rainfall_intensity s = - (1 / 1000) \<and> rainfall_duration s = 10
      \<and> model_duration s = Finite 10 \<and> elapsed_time s = Finite 0 \<and> q s = []
      \<and> h s = replicate 9 (Finite 0))"

section \<open>Properties of flow\_directions\<close>

lemma py_index_bound: "py_index n i = Some j \<Longrightarrow> j < n"
  by (auto simp: py_index_def split: if_splits)

lemma py_index_self: "k < n \<Longrightarrow> py_index n (int k) = Some k"
  by (simp add: py_index_def)

lemma donor_updateI:
  "py_index (length elev) d = Some dj \<Longrightarrow> py_index (length elev) r = Some rj
     \<Longrightarrow> elev ! rj < elev ! dj \<Longrightarrow> steepest_slope st ! dj < s
     \<Longrightarrow> donor_update elev st (st\<lparr>receiver := (receiver st)[dj := r],
                       steepest_slope := (steepest_slope st)[dj := s],
                       receiver_link := (receiver_link st)[dj := l]\<rparr>)"
  unfolding donor_update_def by blast

lemma link_step_cases:
  assumes "link_step elev active_links fromnode tonode link_slope i st = Inr st'"
  shows "st' = st \<or> donor_update elev st st'"
  using assms
  unfolding link_step_def Let_def bind_err_def getitem_def index_of_def
  by (auto split: option.splits if_splits sum.splits intro: donor_updateI)

lemma node_ok_nonneg: "node_ok elev st k \<Longrightarrow> 0 \<le> steepest_slope st ! k"
  by (auto simp: node_ok_def)

lemma link_step_inv:
  assumes "fd_inv elev st"
    and "link_step elev active_links fromnode tonode link_slope i st = Inr st'"
  shows "fd_inv elev st'"
proof -
  from link_step_cases [OF assms(2)] show ?thesis
  proof
    assume "st' = st" with assms(1) show ?thesis by simp
  next
    assume "donor_update elev st st'"
    then obtain d r dj rj s l where
      d: "py_index (length elev) d = Some dj" and r: "py_index (length elev) r = Some rj"
      and lower: "elev ! rj < elev ! dj" and steeper: "steepest_slope st ! dj < s"
      and st': "st' = st\<lparr>receiver := (receiver st)[dj := r],
                       steepest_slope := (steepest_slope st)[dj := s],
                       receiver_link := (receiver_link st)[dj := l]\<rparr>"
      unfolding donor_update_def by blast
    have dj: "dj < length elev" using d by (rule py_index_bound)
    have len: "length (receiver st) = length elev" "length (steepest_slope st) = length elev"
      using assms(1) by (simp_all add: fd_inv_def)
    have pos: "0 < s"
      using steeper node_ok_nonneg [of elev st dj] assms(1) dj by (auto simp: fd_inv_def)
    have "node_ok elev st' k" if k: "k < length elev" for k
    proof (cases "k = dj")
      case True
      then show ?thesis using r lower pos len dj by (simp add: node_ok_def st')
    next
      case False
      moreover have "node_ok elev st k" using assms(1) k by (simp add: fd_inv_def)
      ultimately show ?thesis by (simp add: node_ok_def st')
    qed
    then show ?thesis using len by (simp add: fd_inv_def st')
  qed
qed

lemma link_loop_inv:
  "fd_inv elev st \<Longrightarrow> link_loop elev active_links fromnode tonode link_slope is st = Inr st'
     \<Longrightarrow> fd_inv elev st'"
proof (induction "is" arbitrary: st)
  case Nil
  then show ?case by simp
next
  case (Cons i "is")
  then show ?case by (auto split: sum.splits dest: link_step_inv)
qed

lemma fd_inv_init:
  "fd_inv elev \<lparr>steepest_slope = replicate (length elev) 0,
                 receiver = map int [0..<length elev],
                 receiver_link = replicate (length elev) UNDEFINED_INDEX\<rparr>"
  by (simp add: fd_inv_def node_ok_def)

lemma raster_dispatch_raises: "raster_dispatch g = Inl AttributeError"
  by (simp add: raster_dispatch_def)

lemma fold_override_nth:
  "k < length r \<Longrightarrow> fold (\<lambda>j r. r[j := int j]) js r ! k = (if k \<in> set js then int k else r ! k)"
  by (induction js arbitrary: r) (auto simp: nth_list_update)

lemma those_map_Some:
  "those (map f xs) = Some ys \<Longrightarrow> set ys = {y. \<exists>x\<in>set xs. f x = Some y}"
  by (induction xs arbitrary: ys) (auto split: option.splits)

lemma flow_directions_result:
  assumes "flow_directions vectorized elev active_links fromnode tonode link_slope g bl
             = Inr (rcv, ss, snk, rl)"
  shows "\<exists>st. fd_inv elev st \<and> ss = steepest_slope st \<and>
           (\<forall>k < length elev. rcv ! k = (if overridden (length elev) bl k then int k
                                           else receiver st ! k))"
proof -
  from assms obtain st where
    loop: "link_loop elev active_links fromnode tonode link_slope [0..<length fromnode]
             \<lparr>steepest_slope = replicate (length elev) 0,
              receiver = map int [0..<length elev],
              receiver_link = replicate (length elev) UNDEFINED_INDEX\<rparr> = Inr st"
    and ss: "ss = steepest_slope st"
    and rc: "(case bl of None \<Rightarrow> Inr (receiver st)
              | Some bs \<Rightarrow> baselevel_override (length elev) bs (receiver st)) = Inr rcv"
    by (auto simp: flow_directions_def Let_def raster_dispatch_raises split: sum.splits)
  have inv: "fd_inv elev st" using link_loop_inv [OF fd_inv_init loop] .
  have len: "length (receiver st) = length elev" using inv by (simp add: fd_inv_def)
  have "rcv ! k = (if overridden (length elev) bl k then int k else receiver st ! k)"
    if k: "k < length elev" for k
  proof (cases bl)
    case None
    then show ?thesis using rc by (simp add: overridden_def)
  next
    case (Some bs)
    with rc obtain js where js: "those (map (py_index (length elev)) bs) = Some js"
      and rcv: "rcv = fold (\<lambda>j r. r[j := int j]) js (receiver st)"
      by (auto simp: baselevel_override_def split: option.splits)
    show ?thesis
      using k len Some by (auto simp: overridden_def rcv fold_override_nth those_map_Some [OF js])
  qed
  with inv ss show ?thesis by blast
qed

text \<open>
  Claim C1 against the code. Two nodes, node 0 above node 1, one link (link 0) from node 0
  to node 1 with slope 1, and node 0 a baselevel node. The loop records receiver 1, slope 1
  and link 0 for node 0; line 284 then makes node 0 its own receiver and resets neither of
  the two other arrays. The result lists node 0 as a sink, with \<open>steepest_slope[0] = 1\<close>
  where the claim requires 0, and with \<open>receiver_link[0] = 0\<close> where the docstring
  promises \<open>UNDEFINED_INDEX\<close> for a node without a receiver link.
\<close>

theorem baselevel_node_keeps_slope_and_link:
  "flow_directions no_vectorized [1, 0] [0] [0] [1] [1] None (Some [0])
     = Inr ([0, 1], [1, 0], [0, 1], [0, UNDEFINED_INDEX])
   \<and> ([0, 1] :: int list) ! 0 = 0
   \<and> ([1, 0] :: real list) ! 0 \<noteq> 0
   \<and> ([0, UNDEFINED_INDEX] :: int list) ! 0 \<noteq> UNDEFINED_INDEX"
  by code_simp

text \<open>
  What the link loop does keep. In every result of \<open>flow_directions\<close> and for every node
  \<open>k\<close>: a zero steepest slope implies that the node is its own receiver; and when no
  entry of \<open>baselevel_nodes\<close> addresses \<open>k\<close>, the slope is zero if and only if the
  node is its own receiver.
\<close>

lemma sink_closure_outside_baselevel:
  assumes "flow_directions vectorized elev active_links fromnode tonode link_slope g bl
             = Inr (rcv, ss, snk, rl)"
    and "k < length elev"
  shows "(ss ! k = 0 \<longrightarrow> rcv ! k = int k) \<and>
         (\<not> overridden (length elev) bl k \<longrightarrow> (ss ! k = 0 \<longleftrightarrow> rcv ! k = int k))"
proof -
  from flow_directions_result [OF assms(1)] obtain st where inv: "fd_inv elev st"
    and ss: "ss = steepest_slope st"
    and rcv: "\<forall>k < length elev. rcv ! k = (if overridden (length elev) bl k then int k
                                           else receiver st ! k)"
    by blast
  have ok: "node_ok elev st k" using inv assms(2) by (simp add: fd_inv_def)
  have self: "py_index (length elev) (int k) = Some k" using assms(2) by (rule py_index_self)
  show ?thesis using ok self rcv assms(2) ss by (auto simp: node_ok_def)
qed

text \<open>
  Claim C10. In every result of \<open>flow_directions\<close>, a node \<open>k\<close> outside
  \<open>baselevel_nodes\<close> whose receiver is not itself lies strictly above its receiver
  (\<open>elev[receiver[k]] < elev[k]\<close>, whatever \<open>link_slope\<close> holds), and its recorded
  steepest slope is strictly positive.
\<close>

theorem flow_assigned_strictly_downhill:
  assumes "flow_directions vectorized elev active_links fromnode tonode link_slope g bl
             = Inr (rcv, ss, snk, rl)"
    and "k < length elev"
    and "case bl of None \<Rightarrow> True | Some bs \<Rightarrow> int k \<notin> set bs"
    and "rcv ! k \<noteq> int k"
  shows "\<exists>e. getitem elev (rcv ! k) = Inr e \<and> e < elev ! k \<and> 0 < ss ! k"
proof -
  from flow_directions_result [OF assms(1)] obtain st where inv: "fd_inv elev st"
    and ss: "ss = steepest_slope st"
    and rcv: "\<forall>k < length elev. rcv ! k = (if overridden (length elev) bl k then int k
                                           else receiver st ! k)"
    by blast
  have ok: "node_ok elev st k" using inv assms(2) by (simp add: fd_inv_def)
  have "rcv ! k = receiver st ! k" using rcv assms(2,4) by (simp split: if_splits)
  then show ?thesis using ok assms(4) ss by (auto simp: node_ok_def getitem_def)
qed

text \<open>
  Claim C10 at node 3 of the ten-node network, with node 4 as the only baselevel node.
\<close>

theorem flow_assigned_strictly_downhill_witness:
  "(\<exists>e. getitem bw_z ([1, 4, 1, 6, 4, 4, 5, 4, 6, 7] ! 3) = Inr e \<and> e < bw_z ! 3
        \<and> (0 :: real) < [7 / 5, 1, 6 / 5, 1, 0, 11 / 10, 9 / 10, 23 / 10, 11 / 10, 9 / 10] ! 3)
   \<and> int 3 \<notin> set [4 :: int]"
proof -
  have run: "flow_directions no_vectorized bw_z (map int [0..<18]) bw_fn bw_tn bw_s None (Some [4])
     = Inr ([1, 4, 1, 6, 4, 4, 5, 4, 6, 7],
            [7 / 5, 1, 6 / 5, 1, 0, 11 / 10, 9 / 10, 23 / 10, 11 / 10, 9 / 10],
            [4], [3, 0, 4, 15, 2147483647, 1, 6, 2, 13, 11])"
    by code_simp
  have k: "(3 :: nat) < length bw_z" by (simp add: bw_z_def)
  have nb: "case Some [4 :: int] of None \<Rightarrow> True | Some bs \<Rightarrow> int 3 \<notin> set bs" by simp
  have ne: "([1, 4, 1, 6, 4, 4, 5, 4, 6, 7] :: int list) ! 3 \<noteq> int 3" by simp
  show ?thesis
    using flow_assigned_strictly_downhill [OF run k nb ne] by simp
qed

text \<open>
  Claim C5. On the ten-node network of the doctest, with all eighteen links active and no
  baselevel nodes, \<open>flow_directions\<close> returns receivers \<open>[1,4,1,6,4,4,5,4,6,7]\<close> and
  the single sink 4 (and the slopes and receiver links of the doctest).
\<close>

theorem braun_willett_network:
  "flow_directions vectorized bw_z (map int [0..<18]) bw_fn bw_tn bw_s None None
     = Inr ([1, 4, 1, 6, 4, 4, 5, 4, 6, 7],
            [7 / 5, 1, 6 / 5, 1, 0, 11 / 10, 9 / 10, 23 / 10, 11 / 10, 9 / 10],
            [4], [3, 0, 4, 15, 2147483647, 1, 6, 2, 13, 11])"
  by code_simp

text \<open>
  Claim C9. The result of \<open>flow_directions\<close> does not depend on the \<open>grid\<close>
  argument: the \<open>try\<close> block raises AttributeError before it looks at the grid, so the
  link loop runs for every grid, and for \<open>None\<close>.
\<close>

theorem flow_directions_ignores_grid:
  "flow_directions vectorized elev active_links fromnode tonode link_slope g1 bl
     = flow_directions vectorized elev active_links fromnode tonode link_slope g2 bl"
  by (simp add: flow_directions_def raster_dispatch_def)

section \<open>Properties of grid\_flow\_directions\<close>

lemma fold_update_nth:
  "k < length xs \<Longrightarrow>
     fold (\<lambda>c s. s[c := v c]) cs xs ! k = (if k \<in> set cs then v k else xs ! k)"
  by (induction cs arbitrary: xs) (auto simp: nth_list_update)

lemma fold_update_length: "length (fold (\<lambda>c s. s[c := v c]) cs xs) = length xs"
  by (induction cs arbitrary: xs) auto

text \<open>
  Claim C7 as stated fails on the function's own doctest: the returned slopes are
  \<open>[-1, -1, 0, -2, -2, -1]\<close>, negative at every cell that is not a sink.
\<close>

theorem grid_slope_negative_counterexample:
  "grid_flow_directions doctest_descent doctest_node_index_at_cells doctest_z
     = Inr ([1, 6, 8, 6, 7, 8], [-1, -1, 0, -2, -2, -1])
   \<and> \<not> (0 :: real) \<le> [-1, -1, 0, -2, -2, -1] ! 0"
  by code_simp

text \<open>
  Claim C7, amended. Every slope returned by \<open>grid_flow_directions\<close> is \<open>\<le> 0\<close>: it is
  the steepest gradient of the cell where that is negative and 0 where it is not. A cell
  with slope 0 has its own node as receiver; and where the steepest-descent routine reports
  a neighbour (a node other than the cell's own), the slope is 0 exactly when the receiver
  is the cell's own node.
\<close>

theorem grid_slopes_nonpositive:
  assumes "grid_flow_directions csd nic z = Inr (rcv, slp)"
    and "c < length slp" and "c < length rcv"
  shows "slp ! c \<le> 0
         \<and> slp ! c = (if 0 \<le> fst (csd z) ! c then 0 else fst (csd z) ! c)
         \<and> (slp ! c = 0 \<longrightarrow> rcv ! c = nic ! c)
         \<and> (snd (csd z) ! c \<noteq> nic ! c \<longrightarrow> (slp ! c = 0 \<longleftrightarrow> rcv ! c = nic ! c))"
proof -
  obtain slope receiver where csd: "csd z = (slope, receiver)" by (cases "csd z")
  define sink_cell where "sink_cell = filter (\<lambda>c. slope ! c \<ge> 0) [0..<length slope]"
  from assms(1) have ok: "\<not> ((\<exists>c\<in>set sink_cell. length nic \<le> c)
            \<or> (\<exists>c\<in>set sink_cell. length receiver \<le> c))"
    and rcv: "rcv = fold (\<lambda>c r. r[c := nic ! c]) sink_cell receiver"
    and slp: "slp = fold (\<lambda>c s. s[c := 0]) sink_cell slope"
    by (auto simp: grid_flow_directions_def csd Let_def sink_cell_def split: if_splits)
  have c: "c < length slope" using assms(2) by (simp add: slp fold_update_length)
  have mem: "c \<in> set sink_cell \<longleftrightarrow> 0 \<le> slope ! c" using c by (auto simp: sink_cell_def)
  have s: "slp ! c = (if 0 \<le> slope ! c then 0 else slope ! c)"
    using c by (simp add: slp fold_update_nth mem)
  show ?thesis
  proof (cases "0 \<le> slope ! c")
    case True
    then have "c < length receiver" using ok mem by (auto simp: not_le)
    then have "rcv ! c = nic ! c" using True by (simp add: rcv fold_update_nth mem)
    then show ?thesis using s True by (simp add: csd)
  next
    case False
    have "c < length receiver" using assms(3) by (simp add: rcv fold_update_length)
    then have "rcv ! c = receiver ! c" using False by (simp add: rcv fold_update_nth mem)
    then show ?thesis using s False by (simp add: csd)
  qed
qed

text \<open>
  The amended C7 at cell 2 of the doctest (node 8, the sink).
\<close>

theorem grid_slopes_nonpositive_witness:
  "([-1, -1, 0, -2, -2, -1] :: real list) ! 2 \<le> 0
   \<and> snd (doctest_descent doctest_z) ! 2 \<noteq> doctest_node_index_at_cells ! 2
   \<and> (([-1, -1, 0, -2, -2, -1] :: real list) ! 2 = 0
        \<longleftrightarrow> ([1, 6, 8, 6, 7, 8] :: int list) ! 2 = doctest_node_index_at_cells ! 2)
   \<and> ([-1, -1, 0, -2, -2, -1] :: real list) ! 2 = 0"
proof -
  have run: "grid_flow_directions doctest_descent doctest_node_index_at_cells doctest_z
     = Inr ([1, 6, 8, 6, 7, 8], [-1, -1, 0, -2, -2, -1])"
    by code_simp
  have c: "(2 :: nat) < length ([-1, -1, 0, -2, -2, -1] :: real list)"
    "(2 :: nat) < length ([1, 6, 8, 6, 7, 8] :: int list)" by simp_all
  show ?thesis
    using grid_slopes_nonpositive [OF run c]
    by (simp add: doctest_descent_def doctest_node_index_at_cells_def)
qed

section \<open>Properties of float64 rounding\<close>

text \<open>
  Rounding to nearest never crosses a float64 number: a real between two float64 numbers is
  rounded to a float64 between them, and a float64 number is rounded to itself.
\<close>

lemma rne_cases: "rne t = \<lfloor>t\<rfloor> \<or> (rne t = \<lfloor>t\<rfloor> + 1 \<and> 1 / 2 \<le> t - of_int \<lfloor>t\<rfloor>)"
  by (auto simp: rne_def Let_def)

lemma rne_le_int: "t \<le> of_int N \<Longrightarrow> rne t \<le> N"
proof -
  assume a: "t \<le> of_int N"
  then have f: "\<lfloor>t\<rfloor> \<le> N" by (simp add: floor_le_iff)
  from rne_cases [of t] show ?thesis
  proof
    assume "rne t = \<lfloor>t\<rfloor>" with f show ?thesis by simp
  next
    assume b: "rne t = \<lfloor>t\<rfloor> + 1 \<and> 1 / 2 \<le> t - of_int \<lfloor>t\<rfloor>"
    then have "of_int \<lfloor>t\<rfloor> < t" by linarith
    then have "of_int \<lfloor>t\<rfloor> < (of_int N :: real)" using a by linarith
    then have "\<lfloor>t\<rfloor> < N" by simp
    with b show ?thesis by simp
  qed
qed

lemma int_le_rne: "of_int N \<le> t \<Longrightarrow> N \<le> rne t"
proof -
  assume a: "of_int N \<le> t"
  then have f: "N \<le> \<lfloor>t\<rfloor>" by (simp add: le_floor_iff)
  from rne_cases [of t] f show ?thesis by auto
qed

lemma rne_of_int [simp]: "rne (of_int N) = N"
  by (simp add: rne_def)

lemma powr_two_int: "2 powr real_of_int k = (2 :: real) powi k"
  by (rule powr_real_of_int') simp_all

lemma floor_log2_powi:
  assumes "0 < x"
  shows "2 powi \<lfloor>log 2 x\<rfloor> \<le> x" and "x < 2 powi (\<lfloor>log 2 x\<rfloor> + 1)"
proof -
  have "2 powr real_of_int \<lfloor>log 2 x\<rfloor> \<le> x \<and> x < 2 powr real_of_int (\<lfloor>log 2 x\<rfloor> + 1)"
    using floor_log_eq_powr_iff [of x 2 "\<lfloor>log 2 x\<rfloor>"] assms by simp
  then show "2 powi \<lfloor>log 2 x\<rfloor> \<le> x" and "x < 2 powi (\<lfloor>log 2 x\<rfloor> + 1)"
    unfolding powr_two_int by simp_all
qed

lemma floor_log2_eq:
  assumes "2 powi k \<le> x" and "x < 2 powi (k + 1)"
  shows "\<lfloor>log 2 x\<rfloor> = k"
proof -
  have "(0 :: real) < 2 powi k" by (simp add: zero_less_power_int)
  then have "0 < x" using assms(1) by linarith
  moreover have "2 powr real_of_int k \<le> x \<and> x < 2 powr real_of_int (k + 1)"
    unfolding powr_two_int using assms by simp
  ultimately show ?thesis
    using floor_log_eq_powr_iff [of x 2 k] by simp
qed

lemma ulp_exponent_ge: "- 1074 \<le> ulp_exponent x"
  by (simp add: ulp_exponent_def)

lemma ulp_exponent_below:
  assumes "x \<noteq> 0" and "- 1074 < ulp_exponent x"
  shows "2 powi (ulp_exponent x + 52) \<le> \<bar>x\<bar>"
proof -
  have "ulp_exponent x + 52 = \<lfloor>log 2 \<bar>x\<bar>\<rfloor>"
    using assms(2) by (simp add: ulp_exponent_def max_def split: if_splits)
  then show ?thesis using floor_log2_powi(1) [of "\<bar>x\<bar>"] assms(1) by simp
qed

lemma ulp_exponent_eq:
  assumes "2 powi k \<le> \<bar>x\<bar>" and "\<bar>x\<bar> < 2 powi (k + 1)"
  shows "ulp_exponent x = max k (- 1022) - 52"
  using floor_log2_eq [OF assms] by (simp add: ulp_exponent_def)

lemma float64_grid:
  assumes "float64 c"
  shows "(\<exists>N. c = of_int N * 2 powi ulp_exponent x)
         \<or> (- 1074 < ulp_exponent x \<and> \<bar>c\<bar> < 2 powi (ulp_exponent x + 52))"
proof -
  define e where "e = ulp_exponent x"
  from assms obtain m j where c: "c = of_int m * 2 powi j" and m: "\<bar>m\<bar> < 2 ^ 53"
    and j: "- 1074 \<le> j" unfolding float64_def by blast
  show ?thesis
  proof (cases "e \<le> j")
    case True
    define n where "n = nat (j - e)"
    have jn: "j = int n + e" using True by (simp add: n_def)
    have "(2 :: real) powi (int n + e) = 2 powi int n * 2 powi e"
      by (rule power_int_add) simp
    then have "(2 :: real) powi j = 2 ^ n * 2 powi e"
      unfolding jn power_int_of_nat .
    then have "c = of_int (m * 2 ^ n) * 2 powi e" by (simp add: c)
    then show ?thesis unfolding e_def by blast
  next
    case False
    then have lt: "j + 53 \<le> e + 52" by simp
    have e: "- 1074 < e" using False j by simp
    have "\<bar>of_int m :: real\<bar> < 2 ^ 53" using m by (metis of_int_abs of_int_less_numeral_power_cancel_iff)
    then have "\<bar>c\<bar> < 2 ^ 53 * 2 powi j"
      by (simp add: c abs_mult zero_less_power_int)
    also have "\<dots> = 2 powi (j + 53)"
      by (subst power_int_add) (simp_all add: mult.commute)
    also have "\<dots> \<le> 2 powi (e + 52)" using lt by (intro power_int_increasing) simp_all
    finally show ?thesis using e unfolding e_def by blast
  qed
qed

lemma float64_less: "float64 c \<Longrightarrow> \<bar>c\<bar> < overflow_threshold"
proof -
  assume "float64 c"
  then obtain m j where c: "c = of_int m * 2 powi j" and m: "\<bar>m\<bar> < 2 ^ 53"
    and j: "j \<le> 971" unfolding float64_def by blast
  have "\<bar>of_int m :: real\<bar> < 2 ^ 53" using m by (metis of_int_abs of_int_less_numeral_power_cancel_iff)
  then have "\<bar>c\<bar> < 2 ^ 53 * 2 powi j"
    by (simp add: c abs_mult zero_less_power_int)
  also have "\<dots> = 2 powi (j + 53)"
    by (subst power_int_add) (simp_all add: mult.commute)
  also have "\<dots> \<le> 2 powi 1024" using j by (intro power_int_increasing) simp_all
  finally show ?thesis unfolding overflow_threshold_def by simp
qed

lemma round64_grid_upper:
  assumes "x \<noteq> 0" and "float64 c" and "x \<le> c"
  shows "of_int (rne (x / 2 powi ulp_exponent x)) * 2 powi ulp_exponent x \<le> c"
proof -
  define e where "e = ulp_exponent x"
  define u :: real where "u = 2 powi e"
  have u: "0 < u" unfolding u_def by (simp add: zero_less_power_int)
  from float64_grid [OF assms(2), of x] show ?thesis
  proof
    assume "\<exists>N. c = of_int N * 2 powi ulp_exponent x"
    then obtain N where N: "c = of_int N * u" unfolding u_def e_def by blast
    have "x / u \<le> of_int N" using assms(3) u by (simp add: N pos_divide_le_eq)
    then have "rne (x / u) \<le> N" by (rule rne_le_int)
    then have "of_int (rne (x / u)) * u \<le> of_int N * u" using u by simp
    then show ?thesis unfolding N u_def e_def .
  next
    assume a: "- 1074 < ulp_exponent x \<and> \<bar>c\<bar> < 2 powi (ulp_exponent x + 52)"
    then have big: "2 powi (e + 52) \<le> \<bar>x\<bar>"
      unfolding e_def using ulp_exponent_below [OF assms(1)] by simp
    have small: "\<bar>c\<bar> < 2 powi (e + 52)" using a unfolding e_def by simp
    have split: "(2 :: real) powi (e + 52) = 2 ^ 52 * u"
      unfolding u_def by (subst power_int_add) (simp_all add: mult.commute)
    have neg: "x < 0" using big small assms(3) by linarith
    then have "x \<le> - (2 ^ 52) * u" using big split by simp
    then have "x / u \<le> of_int (- (2 ^ 52))" using u by (simp add: pos_divide_le_eq)
    then have "rne (x / u) \<le> - (2 ^ 52)" by (rule rne_le_int)
    then have "of_int (rne (x / u)) \<le> (- (2 ^ 52) :: real)"
      by (metis of_int_le_iff of_int_minus of_int_numeral of_int_power)
    then have "of_int (rne (x / u)) * u \<le> - (2 ^ 52) * u"
      using u by (intro mult_right_mono) simp_all
    also have "\<dots> < c" using small split by linarith
    finally have "of_int (rne (x / u)) * u \<le> c" by simp
    then show ?thesis unfolding u_def e_def .
  qed
qed

lemma round64_grid_lower:
  assumes "x \<noteq> 0" and "float64 c" and "c \<le> x"
  shows "c \<le> of_int (rne (x / 2 powi ulp_exponent x)) * 2 powi ulp_exponent x"
proof -
  define e where "e = ulp_exponent x"
  define u :: real where "u = 2 powi e"
  have u: "0 < u" unfolding u_def by (simp add: zero_less_power_int)
  from float64_grid [OF assms(2), of x] show ?thesis
  proof
    assume "\<exists>N. c = of_int N * 2 powi ulp_exponent x"
    then obtain N where N: "c = of_int N * u" unfolding u_def e_def by blast
    have "of_int N \<le> x / u" using assms(3) u by (simp add: N pos_le_divide_eq)
    then have "N \<le> rne (x / u)" by (rule int_le_rne)
    then have "of_int N * u \<le> of_int (rne (x / u)) * u" using u by simp
    then show ?thesis unfolding N u_def e_def .
  next
    assume a: "- 1074 < ulp_exponent x \<and> \<bar>c\<bar> < 2 powi (ulp_exponent x + 52)"
    then have big: "2 powi (e + 52) \<le> \<bar>x\<bar>"
      unfolding e_def using ulp_exponent_below [OF assms(1)] by simp
    have small: "\<bar>c\<bar> < 2 powi (e + 52)" using a unfolding e_def by simp
    have split: "(2 :: real) powi (e + 52) = 2 ^ 52 * u"
      unfolding u_def by (subst power_int_add) (simp_all add: mult.commute)
    have pos: "0 < x" using big small assms(3) by linarith
    then have "2 ^ 52 * u \<le> x" using big split by simp
    then have "of_int (2 ^ 52) \<le> x / u" using u by (simp add: pos_le_divide_eq)
    then have "2 ^ 52 \<le> rne (x / u)" by (rule int_le_rne)
    then have "(2 ^ 52 :: real) \<le> of_int (rne (x / u))"
      by (metis of_int_le_iff of_int_numeral of_int_power)
    then have "2 ^ 52 * u \<le> of_int (rne (x / u)) * u"
      using u by (intro mult_right_mono) simp_all
    moreover have "c < 2 ^ 52 * u" using small split by linarith
    ultimately have "c \<le> of_int (rne (x / u)) * u" by linarith
    then show ?thesis unfolding u_def e_def .
  qed
qed

lemma float64_zero: "float64 0"
  unfolding float64_def by (intro exI [of _ 0] exI [of _ 0]) simp

lemma round64_bounds:
  assumes "float64 lo" and "float64 hi" and "lo \<le> x" and "x \<le> hi"
  shows "\<exists>y. round64 x = Finite y \<and> lo \<le> y \<and> y \<le> hi"
proof (cases "x = 0")
  case True
  then show ?thesis using assms(3,4) by (simp add: round64_def)
next
  case False
  define y :: real
    where "y = of_int (rne (x / 2 powi ulp_exponent x)) * 2 powi ulp_exponent x"
  have "y \<le> hi" unfolding y_def using False assms(2,4) by (rule round64_grid_upper)
  moreover have "lo \<le> y" unfolding y_def using False assms(1,3) by (rule round64_grid_lower)
  moreover have "\<bar>hi\<bar> < overflow_threshold" "\<bar>lo\<bar> < overflow_threshold"
    using assms(1,2) by (simp_all only: float64_less)
  ultimately have "round64 x = Finite y \<and> lo \<le> y \<and> y \<le> hi"
    using False unfolding round64_def Let_def y_def [symmetric] by auto
  then show ?thesis by blast
qed

lemma round64_exact: "float64 x \<Longrightarrow> round64 x = Finite x"
  using round64_bounds [of x x x] by auto

lemma float64_pow2: "- 1074 \<le> j \<Longrightarrow> j \<le> 971 \<Longrightarrow> float64 (2 powi j)"
  unfolding float64_def by (intro exI [of _ 1] exI [of _ j]) simp

lemma float64_minus: "float64 x \<Longrightarrow> float64 (- x)"
  unfolding float64_def
  apply (elim exE conjE)
  subgoal for m e by (intro exI [of _ "- m"] exI [of _ e]) simp
  done

lemma round64_eval:
  assumes "2 powi k \<le> \<bar>x\<bar>" and "\<bar>x\<bar> < 2 powi (k + 1)" and "- 1022 \<le> k" and "k \<le> 970"
  shows "round64 x = Finite (of_int (rne (x / 2 powi (k - 52))) * 2 powi (k - 52))"
proof -
  have "(0 :: real) < 2 powi k" by (simp add: zero_less_power_int)
  then have "0 < \<bar>x\<bar>" using assms(1) by linarith
  then have x: "x \<noteq> 0" by simp
  have e: "ulp_exponent x = k - 52"
    using ulp_exponent_eq [OF assms(1,2)] assms(3) by simp
  have hi: "float64 (2 powi (k + 1))" using assms(3,4) by (intro float64_pow2) simp_all
  then have lo: "float64 (- (2 powi (k + 1)))" by (rule float64_minus)
  have "- (2 powi (k + 1)) \<le> x" "x \<le> 2 powi (k + 1)" using assms(2) by auto
  from round64_bounds [OF lo hi this] obtain y where "round64 x = Finite y" by blast
  then show ?thesis
    using x unfolding round64_def Let_def e by (auto split: if_splits)
qed

text \<open>
  The float64 values of the literals and of the first operations of the examples, each
  computed from the definition of \<open>round64\<close>.
\<close>

lemma float64I:
  "x = of_int m * 2 powi e \<Longrightarrow> \<bar>m\<bar> < 2 ^ 53 \<Longrightarrow> - 1074 \<le> e \<Longrightarrow> e \<le> 971 \<Longrightarrow> float64 x"
  unfolding float64_def by blast

lemma float64_small:
  "float64 1" "float64 10" "float64 19" "float64 21" "float64 98" "float64 103"
  "float64 (25 / 256)" "float64 (26 / 256)"
  by (rule float64I [of _ 1 0], simp_all)
     (rule float64I [of _ 10 0], simp_all,
      rule float64I [of _ 19 0], simp_all,
      rule float64I [of _ 21 0], simp_all,
      rule float64I [of _ 98 0], simp_all,
      rule float64I [of _ 103 0], simp_all,
      rule float64I [of _ 25 "- 8"], simp_all,
      rule float64I [of _ 13 "- 7"], simp_all)

lemma round64_zero [simp]: "round64 0 = Finite 0"
  by (simp add: round64_def)

lemma round64_small [simp]:
  "round64 1 = Finite 1" "round64 10 = Finite 10"
  by (simp_all add: round64_exact float64_small)

lemma round64_h_init [simp]:
  "round64 (1 / 1000) = Finite h_init64"
  "round64 h_init64 = Finite h_init64"
  "round64 (- h_init64) = Finite (- h_init64)"
  "round64 (- (1 / 1000)) = Finite (- h_init64)"
  unfolding h_init64_def
  by (subst round64_eval [where k = "- 10"], simp_all add: rne_def Let_def)+

lemma h_init64_pos: "0 < h_init64"
  by (simp add: h_init64_def)

lemma round64_g [simp]: "round64 (49 / 5) = Finite g64"
  unfolding g64_def
  by (subst round64_eval [where k = 3], simp_all add: rne_def Let_def)

lemma round64_alpha [simp]: "round64 (1 / 5) = Finite alpha64"
  unfolding alpha64_def
  by (subst round64_eval [where k = "- 3"], simp_all add: rne_def Let_def)

lemma alpha64_pos: "0 < alpha64"
  by (simp add: alpha64_def)

lemma round64_alpha_dx [simp]: "round64 (alpha64 * 10) = Finite 2"
  unfolding alpha64_def
  by (subst round64_eval [where k = 1], simp_all add: rne_def Let_def)

lemma round64_g_h_init [simp]: "round64 (g64 * h_init64) = Finite g_h_init64"
  unfolding g64_def h_init64_def g_h_init64_def
  by (subst round64_eval [where k = "- 7"], simp_all add: rne_def Let_def)

lemma sqrt_g_h_init:
  "25 / 256 \<le> sqrt g_h_init64" "sqrt g_h_init64 \<le> 26 / 256"
  unfolding g_h_init64_def
  by (rule real_le_rsqrt, simp add: power2_eq_square)
     (rule real_le_lsqrt, simp_all add: power2_eq_square)

lemma g_h_init64_nonneg: "\<not> g_h_init64 < 0"
  by (simp add: g_h_init64_def)

lemma round64_sqrt_g_h_init:
  "\<exists>y. round64 (sqrt g_h_init64) = Finite y \<and> 25 / 256 \<le> y \<and> y \<le> 26 / 256"
  by (rule round64_bounds) (simp_all only: float64_small sqrt_g_h_init)

section \<open>Properties of the overland-flow loop\<close>

lemma closed_raster_fields:
  "dx (closed_raster x) = x"
  "max_of_link_end_node_values (closed_raster x) v = []"
  "calculate_gradients_at_active_links (closed_raster x) v = []"
  "calculate_flux_divergence_at_nodes (closed_raster x) v out = replicate 9 (Finite 0)"
  "calculate_steepest_descent_on_nodes (closed_raster x) v sl = replicate 9 (Finite 0)"
  "get_active_cell_node_ids (closed_raster x) = [4]"
  by (simp_all add: closed_raster_def)

lemma np_amax_replicate9: "np_amax (replicate 9 (Finite x)) = Inr (Finite x)"
  by (simp add: np_amax_def numeral_eq_Suc fl_max_def)

lemma np_amin_replicate9: "np_amin (replicate 9 (Finite x)) = Inr (Finite x)"
  by (simp add: np_amin_def numeral_eq_Suc fl_min_def)

lemma np_zip_flat:
  "np_zip fl_add (replicate 9 (Finite h_init64)) flat_z = Inr (replicate 9 (Finite h_init64))"
  "np_zip fl_add ((replicate 9 (Finite h_init64))[4 := Finite 0]) flat_z
     = Inr ((replicate 9 (Finite h_init64))[4 := Finite 0])"
  by (simp_all add: np_zip_def flat_z_def numeral_eq_Suc)

lemma update_q_no_links: "update_q dtmax [] [] [] = Inr []"
  by (simp add: update_q_def np_zip_def bind_err_def)

lemma update_tau_no_links:
  "\<exists>t. update_tau grd s [] slopes depth = Inr t"
  using alpha64_pos by (simp add: update_tau_def bind_err_def)

lemma fl_div_zero_not_finite: "fl_div a (Finite 0) \<noteq> Finite y"
  by (cases a) (simp_all add: sign_inf_def)

lemma dry_run_fields:
  "alpha dry_run = 1 / 5" "h dry_run = replicate 9 (Finite 0)"
  by (simp_all add: dry_run_def dry_object_def flow_across_grid_setup_def
      OverlandFlow_init_def no_kwds_def no_run_kwds_def pop_def closed_raster_def Let_def)

lemma dry_run_more_fields:
  "model_duration dry_run = Finite 1" "elapsed_time dry_run = Finite 0"
  "rainfall_intensity dry_run = 0" "rainfall_duration dry_run = 1" "q dry_run = []"
  by (simp_all add: dry_run_def dry_object_def flow_across_grid_setup_def
      OverlandFlow_init_def no_kwds_def no_run_kwds_def pop_def closed_raster_def Let_def)

text \<open>
  Claim C8 as stated fails. On an object created with \<open>h_init = 0\<close> every depth is 0 when
  the first stability step is computed; the division in line 402 is a float64 division and
  yields \<open>inf\<close>: no exception is raised.
\<close>

theorem dry_mesh_counterexample:
  "np_amax (h dry_run) = Inr (Finite 0)
   \<and> courant_step (closed_raster 10) dry_run = Inr PosInf"
  by (simp add: courant_step_def dry_run_fields np_amax_replicate9 bind_err_def
      closed_raster_def self_g_def sign_inf_def)

text \<open>
  Claim C8, amended. When the stability step is computed with \<open>max(depth) = 0\<close>, no error
  is raised: \<open>dtmax\<close> is the float64 quotient of \<open>alpha*dx\<close> by zero, which is
  \<open>inf\<close>, \<open>-inf\<close> or \<open>nan\<close> and never a number.
\<close>

theorem dry_mesh_raises_nothing:
  assumes "np_amax (h s) = Inr (Finite 0)"
  shows "courant_step grd s
           = Inr (fl_div (fl_mul (round64 (alpha s)) (round64 (dx grd))) (Finite 0))
         \<and> (\<forall>y. courant_step grd s \<noteq> Inr (Finite y))
         \<and> (\<forall>e. courant_step grd s \<noteq> Inl e)"
  using assms
  by (simp add: courant_step_def bind_err_def self_g_def fl_div_zero_not_finite)

text \<open>
  The amended C8 on the all-dry object of the counterexample.
\<close>

theorem dry_mesh_raises_nothing_witness:
  "np_amax (h dry_run) = Inr (Finite 0)
   \<and> courant_step (closed_raster 10) dry_run = Inr PosInf
   \<and> fl_div (fl_mul (round64 (alpha dry_run)) (round64 (dx (closed_raster 10)))) (Finite 0)
       = PosInf"
proof -
  have dry: "np_amax (h dry_run) = Inr (Finite 0)"
    by (simp add: dry_run_fields np_amax_replicate9)
  have "fl_div (fl_mul (round64 (alpha dry_run)) (round64 (dx (closed_raster 10)))) (Finite 0)
       = PosInf"
    by (simp add: dry_run_fields closed_raster_def sign_inf_def)
  then show ?thesis
    using dry_mesh_raises_nothing [OF dry, of "closed_raster 10"] dry by simp
qed

text \<open>
  What follows the infinite step on the all-dry object: the limiter keeps \<open>dt = dtmax\<close>,
  the depth update stores \<open>0 + 0 * inf\<close>, which is \<open>nan\<close>, at the interior node, the clock
  becomes \<open>inf\<close>, and the loop exits: \<open>flow_across_grid\<close> returns normally.
\<close>

lemma dry_run_returns:
  "\<exists>s'. flow_across_grid (closed_raster 10) flat_z no_run_kwds dry_object = Some (Inr s')
      \<and> h s' = (replicate 9 (Finite 0))[4 := NaN] \<and> elapsed_time s' = PosInf"
proof -
  have c: "courant_step (closed_raster 10) dry_run = Inr PosInf"
    by (simp add: courant_step_def dry_run_fields np_amax_replicate9 bind_err_def
        closed_raster_def self_g_def sign_inf_def)
  obtain t where t: "update_tau (closed_raster 10) dry_run [] (replicate 9 (Finite 0))
      ((replicate 9 (Finite 0))[4 := NaN]) = Inr t"
    using update_tau_no_links by blast
  have w: "np_zip fl_add (replicate 9 (Finite 0)) flat_z = Inr (replicate 9 (Finite 0))"
    "\<exists>w. np_zip fl_add ((replicate 9 (Finite 0))[4 := NaN]) flat_z = Inr w"
    by (simp_all add: np_zip_def flat_z_def)
  then obtain w' where w': "np_zip fl_add ((replicate 9 (Finite 0))[4 := NaN]) flat_z = Inr w'"
    by blast
  have rate: "depth_rate 0 (replicate 9 (Finite 0)) = replicate 9 (Finite 0)"
    by (simp add: depth_rate_def fl_sub_def)
  have lim: "limit_dt_across_grid (1 / 5) PosInf (Finite 1) (replicate 9 (Finite 0))
               (replicate 9 (Finite 0)) = Inr PosInf"
    by (simp add: limit_dt_across_grid_def np_amin_replicate9 bind_err_def)
  have upd: "update_depth [4] PosInf (replicate 9 (Finite 0)) (replicate 9 (Finite 0))
               = Inr ((replicate 9 (Finite 0))[4 := NaN])"
    by (simp add: update_depth_def sign_inf_def)
  define s' where "s' = dry_run\<lparr>q := [], dqds := replicate 9 (Finite 0),
               rainfall_intensity := 0, dhdt := replicate 9 (Finite 0),
               h := (replicate 9 (Finite 0))[4 := NaN], tau := t,
               elapsed_time := PosInf\<rparr>"
  have step: "across_grid_step (closed_raster 10) flat_z dry_run = Inr s'"
    unfolding across_grid_step_def c advance_depth_def s'_def
    by (simp add: bind_err_def Let_def dry_run_fields dry_run_more_fields w(1) w'
        closed_raster_fields update_q_no_links np_zip_def [of fl_sub "[]" "[]"]
        current_rainfall_def rate lim upd t)
  have "across_grid_loop (closed_raster 10) flat_z s' = Some (Inr s')"
    by (subst across_grid_loop.simps) (simp add: s'_def dry_run_more_fields)
  then have "across_grid_loop (closed_raster 10) flat_z dry_run = Some (Inr s')"
    using step by (subst across_grid_loop.simps) (simp add: dry_run_more_fields)
  then show ?thesis
    by (auto simp: flow_across_grid_def dry_run_def [symmetric] s'_def)
qed

text \<open>
  Nor does it hide an exception of the rest of the pass: with elevations of the wrong shape
  the addition of line 412 raises ValueError on the all-dry object as on any other.
\<close>

lemma dry_run_wrong_shape:
  "across_grid_step (closed_raster 10) [Finite 0, Finite 0] dry_run = Inl ValueError"
  by (simp add: across_grid_step_def courant_step_def dry_run_fields np_amax_replicate9
      bind_err_def np_zip_def Let_def)

text \<open>
  Claim C3 against the code. The update computed in the loop is the formula of the claim with
  the fixed roughness 0.06, for every link and every object; \<open>self.m_n\<close> and
  \<open>self.m_n_sq\<close> are not read. For the default object (\<open>Mannings_n = 0.04\<close>) and a link
  with \<open>q = 1\<close>, \<open>hflow = 1\<close>, slope 0 and \<open>dtmax = 1\<close>, the code gives
  \<open>1 / 1.03528\<close> where the claim's formula gives \<open>1 / 1.01568\<close>.
\<close>

theorem discharge_update_fixed_roughness:
  "update_discharge dtmax hf sl qi = spec_update_discharge 0.06 dtmax hf sl qi
   \<and> m_n (OverlandFlow_init grd frd fri no_kwds) = 0.04
   \<and> update_discharge 1 1 0 1 = 1 / (1 + 9.8 * 0.0036)
   \<and> spec_update_discharge (m_n (OverlandFlow_init grd frd fri no_kwds)) 1 1 0 1
       = 1 / (1 + 9.8 * 0.0016)
   \<and> update_discharge 1 1 0 1
       \<noteq> spec_update_discharge (m_n (OverlandFlow_init grd frd fri no_kwds)) 1 1 0 1"
  by (simp add: update_discharge_def spec_update_discharge_def self_g_def self_ten_thirds_def
      OverlandFlow_init_def no_kwds_def pop_def power2_eq_square Let_def)

text \<open>
  The loop's float64 update and the formula agree on the link of the example above
  (\<open>q = 1\<close>, \<open>hflow = 1\<close>, slope 0, \<open>dtmax = 1\<close>): the loop stores the float64
  \<open>0.9659222625763079\<close>, within \<open>2^-53\<close> of \<open>1 / 1.03528\<close>.
\<close>

lemma update_q_one_link:
  "update_q (Finite 1) [Finite 1] [Finite 0] [Finite 1]
     = Inr [Finite (8700254283615053 / 2 ^ 53)]
   \<and> \<bar>8700254283615053 / 2 ^ 53 - update_discharge 1 1 0 1\<bar> < 1 / 2 ^ 53"
proof -
  define c :: real where "c = 1080863910568919 / 2 ^ 54"
  define f1 :: real where "f1 = 5296233161787703 / 2 ^ 53"
  define f2 :: real where "f2 = 5084383835316195 / 2 ^ 57"
  define d :: real where "d = 4662486622224127 / 2 ^ 52"
  define q1 :: real where "q1 = 8700254283615053 / 2 ^ 53"
  have rc: "round64 (3 / 50) = Finite c"
    unfolding c_def by (subst round64_eval [where k = "- 5"], simp_all add: rne_def Let_def)
  have rg: "round64 g64 = Finite g64"
    unfolding g64_def by (subst round64_eval [where k = 3], simp_all add: rne_def Let_def)
  have rf1: "round64 (g64 * c) = Finite f1"
    unfolding g64_def c_def f1_def
    by (subst round64_eval [where k = "- 1"], simp_all add: rne_def Let_def)
  have rf2: "round64 (f1 * c) = Finite f2" "round64 f2 = Finite f2"
    unfolding c_def f1_def f2_def
    by (subst round64_eval [where k = "- 5"], simp_all add: rne_def Let_def)+
  have rd: "round64 (1 + f2) = Finite d"
    unfolding f2_def d_def
    by (subst round64_eval [where k = 0], simp_all add: rne_def Let_def)
  have rq: "round64 (1 / d) = Finite q1"
    unfolding d_def q1_def
    by (subst round64_eval [where k = "- 1"], simp_all add: rne_def Let_def)
  have d0: "d \<noteq> 0" by (simp add: d_def)
  have "update_q (Finite 1) [Finite 1] [Finite 0] [Finite 1] = Inr [Finite q1]"
    using d0
    by (simp add: update_q_def np_zip_def bind_err_def Let_def self_g_def fl_sub_def
        rc rg rf1 rf2 rd rq)
  moreover have "\<bar>q1 - update_discharge 1 1 0 1\<bar> < 1 / 2 ^ 53"
    by (simp add: q1_def update_discharge_def self_g_def self_ten_thirds_def)
  ultimately show ?thesis unfolding q1_def by simp
qed

lemma default_run_fields:
  "model_duration default_run = Finite 1" "elapsed_time default_run = Finite 0"
  "alpha default_run = 1 / 5" "rainfall_intensity default_run = 0"
  "rainfall_duration default_run = 1"
  "h default_run = replicate 9 (Finite h_init64)" "q default_run = []"
  by (simp_all add: default_run_def default_object_def flow_across_grid_setup_def
      OverlandFlow_init_def no_kwds_def no_run_kwds_def pop_def closed_raster_def Let_def)

lemma default_run_courant:
  "\<exists>D. courant_step (closed_raster 10) default_run = Inr (Finite D) \<and> 19 \<le> D \<and> D \<le> 21"
proof -
  from round64_sqrt_g_h_init obtain y where y: "round64 (sqrt g_h_init64) = Finite y"
    and lo: "25 / 256 \<le> y" and hi: "y \<le> 26 / 256" by blast
  have y0: "0 < y" using lo by simp
  have "19 \<le> 2 / y" using hi y0 by (simp add: pos_le_divide_eq)
  moreover have "2 / y \<le> 21" using lo y0 by (simp add: pos_divide_le_eq)
  ultimately obtain D where D: "round64 (2 / y) = Finite D" "19 \<le> D" "D \<le> 21"
    using round64_bounds [of 19 21 "2 / y"] by (auto simp: float64_small)
  have "courant_step (closed_raster 10) default_run = Inr (Finite D)"
    using y y0 D(1)
    by (simp add: courant_step_def default_run_fields np_amax_replicate9 bind_err_def
        closed_raster_def self_g_def g_h_init64_nonneg)
  then show ?thesis using D(2,3) by blast
qed

text \<open>
  Claim C2 against the code. The default object on a grid with 10 m spacing, run for a model
  duration of 1 s, in the first pass of the loop of \<open>flow_across_grid\<close>: the Courant step
  of line 402 is between 19 and 21 s (about 20.2 s); no depth rate is negative, so line 441
  sets \<open>dt = dtmax\<close>, and that step is longer than the remaining 1 s. (The minimum with
  \<open>model_duration\<close> taken in line 405 is overwritten; the other branch, line 439, keeps
  \<open>model_duration\<close> in its minimum.)
\<close>

theorem step_overshoots_model_duration:
  "\<exists>D. courant_step (closed_raster 10) default_run = Inr (Finite D)
      \<and> limit_dt_across_grid (alpha default_run) (Finite D) (model_duration default_run)
           (h default_run)
           (depth_rate (current_rainfall default_run)
              (calculate_flux_divergence_at_nodes (closed_raster 10) (q default_run)
                 (dqds default_run)))
          = Inr (Finite D)
      \<and> model_duration default_run = Finite 1 \<and> elapsed_time default_run = Finite 0
      \<and> 1 - 0 < D"
proof -
  from default_run_courant obtain D where
    c: "courant_step (closed_raster 10) default_run = Inr (Finite D)" and D: "19 \<le> D"
    by blast
  have "limit_dt_across_grid (alpha default_run) (Finite D) (model_duration default_run)
           (h default_run)
           (depth_rate (current_rainfall default_run)
              (calculate_flux_divergence_at_nodes (closed_raster 10) (q default_run)
                 (dqds default_run)))
          = Inr (Finite D)"
    by (simp add: limit_dt_across_grid_def default_run_fields closed_raster_def depth_rate_def
        current_rainfall_def fl_sub_def np_amin_replicate9 bind_err_def)
  with c D show ?thesis by (auto simp: default_run_fields)
qed

text \<open>
  The whole first pass of that run: the clock advances by the Courant step, and the loop
  then exits, 18 s or more after the model duration.
\<close>

lemma default_run_first_pass:
  "\<exists>t s'. across_grid_step (closed_raster 10) flat_z default_run = Inr s'
      \<and> elapsed_time s' = Finite t \<and> 19 \<le> t \<and> h s' = h default_run
      \<and> flow_across_grid (closed_raster 10) flat_z no_run_kwds default_object = Some (Inr s')"
proof -
  from default_run_courant obtain D where
    c: "courant_step (closed_raster 10) default_run = Inr (Finite D)"
    and D: "19 \<le> D" "D \<le> 21"
    by blast
  from round64_bounds [of 19 21 D] D obtain t where
    r: "round64 D = Finite t" and t: "19 \<le> t" by (auto simp: float64_small)
  obtain ta where ta: "update_tau (closed_raster 10) default_run [] (replicate 9 (Finite 0))
      (replicate 9 (Finite h_init64)) = Inr ta"
    using update_tau_no_links by blast
  have rate: "depth_rate 0 (replicate 9 (Finite 0)) = replicate 9 (Finite 0)"
    by (simp add: depth_rate_def fl_sub_def)
  have lim: "limit_dt_across_grid (1 / 5) (Finite D) (Finite 1) (replicate 9 (Finite h_init64))
               (replicate 9 (Finite 0)) = Inr (Finite D)"
    by (simp add: limit_dt_across_grid_def np_amin_replicate9 bind_err_def)
  have upd: "update_depth [4] (Finite D) (replicate 9 (Finite h_init64))
               (replicate 9 (Finite 0)) = Inr (replicate 9 (Finite h_init64))"
    by (simp add: update_depth_def numeral_eq_Suc)
  define s' where "s' = default_run\<lparr>q := [], dqds := replicate 9 (Finite 0),
               rainfall_intensity := 0, dhdt := replicate 9 (Finite 0),
               h := replicate 9 (Finite h_init64), tau := ta,
               elapsed_time := Finite t\<rparr>"
  have step: "across_grid_step (closed_raster 10) flat_z default_run = Inr s'"
    unfolding across_grid_step_def c advance_depth_def s'_def
    by (simp add: bind_err_def Let_def default_run_fields np_zip_flat
        closed_raster_fields update_q_no_links np_zip_def [of fl_sub "[]" "[]"]
        current_rainfall_def rate lim upd ta r)
  have "across_grid_loop (closed_raster 10) flat_z s' = Some (Inr s')"
    using t by (subst across_grid_loop.simps) (simp add: s'_def default_run_fields)
  then have "across_grid_loop (closed_raster 10) flat_z default_run = Some (Inr s')"
    using step by (subst across_grid_loop.simps) (simp add: default_run_fields)
  then have "flow_across_grid (closed_raster 10) flat_z no_run_kwds default_object = Some (Inr s')"
    by (simp add: flow_across_grid_def default_run_def)
  moreover have "h s' = h default_run" "elapsed_time s' = Finite t"
    by (simp_all add: s'_def default_run_fields)
  ultimately show ?thesis using step t by blast
qed

lemma round64_rate [simp]:
  "round64 (- (317 / 10000)) = Finite (- rate64)"
  "round64 (h_init64 / rate64) = Finite drain64"
  "round64 drain64 = Finite drain64"
  "round64 (- rate64) = Finite (- rate64)"
  unfolding rate64_def h_init64_def drain64_def
  by (subst round64_eval [where k = "- 5"], simp_all add: rne_def Let_def)+

lemma round64_lost [simp]:
  "round64 (- (rate64 * drain64)) = Finite (- lost64)"
  unfolding rate64_def lost64_def drain64_def
  by (subst round64_eval [where k = "- 10"], simp_all add: rne_def Let_def)

lemma round64_below_zero [simp]:
  "round64 (h_init64 - lost64) = Finite (- (1 / 2 ^ 62))"
  unfolding h_init64_def lost64_def
  by (subst round64_eval [where k = "- 62"], simp_all add: rne_def Let_def)

lemma alpha_one_run_fields:
  "model_duration alpha_one_run = Finite 1" "elapsed_time alpha_one_run = Finite 0"
  "alpha alpha_one_run = 1" "h alpha_one_run = replicate 9 (Finite h_init64)"
  by (simp_all add: alpha_one_run_def flow_across_grid_setup_def
      OverlandFlow_init_def no_kwds_def no_run_kwds_def pop_def closed_raster_def Let_def)

lemma courant_alpha_one:
  assumes "np_amax (h s) = Inr (Finite h_init64)" and "alpha s = 1"
  shows "\<exists>D. courant_step (closed_raster 10) s = Inr (Finite D) \<and> 98 \<le> D \<and> D \<le> 103"
proof -
  from round64_sqrt_g_h_init obtain y where y: "round64 (sqrt g_h_init64) = Finite y"
    and lo: "25 / 256 \<le> y" and hi: "y \<le> 26 / 256" by blast
  have y0: "0 < y" using lo by simp
  have "98 \<le> 10 / y" using hi y0 by (simp add: pos_le_divide_eq)
  moreover have "10 / y \<le> 103" using lo y0 by (simp add: pos_divide_le_eq)
  ultimately obtain D where D: "round64 (10 / y) = Finite D" "98 \<le> D" "D \<le> 103"
    using round64_bounds [of 98 103 "10 / y"] by (auto simp: float64_small)
  have "courant_step (closed_raster 10) s = Inr (Finite D)"
    using y y0 D(1) assms
    by (simp add: courant_step_def bind_err_def closed_raster_def self_g_def g_h_init64_nonneg)
  then show ?thesis using D(2,3) by blast
qed

lemma drain64_bounds: "0 < drain64" "drain64 < 1"
  by (simp_all add: drain64_def)

text \<open>
  Claim C4 against the code. The default object with \<open>alpha = 1\<close>, in a pass in which the
  interior node (depth 0.001) loses 0.0317 m/s: every depth is positive, the limiter of
  lines 435-439 returns \<open>dt = 1 * (0.001 / 0.0317)\<close> as rounded by float64, and the
  update of line 444 leaves the depth \<open>-2^-62\<close> (about \<open>-2.2e-19\<close>) at the interior node.
\<close>

theorem limiter_leaves_negative_depth:
  "\<exists>D. courant_step (closed_raster 10) alpha_one_run = Inr (Finite D)
      \<and> limit_dt_across_grid (alpha alpha_one_run) (Finite D) (model_duration alpha_one_run)
           (h alpha_one_run) draining_rate
          = Inr (Finite drain64)
      \<and> update_depth (get_active_cell_node_ids (closed_raster 10)) (Finite drain64)
           (h alpha_one_run) draining_rate
          = Inr ((h alpha_one_run)[4 := Finite (- (1 / 2 ^ 62))])
      \<and> alpha alpha_one_run = 1
      \<and> h alpha_one_run = replicate 9 (Finite h_init64) \<and> 0 < h_init64
      \<and> - (1 / 2 ^ 62) < (0 :: real)"
proof -
  have "np_amax (h alpha_one_run) = Inr (Finite h_init64)"
    by (simp add: alpha_one_run_fields np_amax_replicate9)
  from courant_alpha_one [OF this alpha_one_run_fields(3)] obtain D where
    c: "courant_step (closed_raster 10) alpha_one_run = Inr (Finite D)" and D: "98 \<le> D"
    by blast
  have rate: "draining_rate = [Finite 0, Finite 0, Finite 0, Finite 0, Finite (- rate64),
                 Finite 0, Finite 0, Finite 0, Finite 0]"
    by (simp add: draining_rate_def numeral_eq_Suc)
  have depth: "h alpha_one_run = [Finite h_init64, Finite h_init64, Finite h_init64,
                 Finite h_init64, Finite h_init64, Finite h_init64, Finite h_init64,
                 Finite h_init64, Finite h_init64]"
    by (simp add: alpha_one_run_fields numeral_eq_Suc)
  have r0: "0 < rate64" by (simp add: rate64_def)
  have shallow: "shallowing_locations draining_rate = [4]"
    unfolding rate by (simp add: shallowing_locations_def upt_rec r0)
  have ttd: "time_to_drain (h alpha_one_run) draining_rate = [Finite drain64]"
    unfolding time_to_drain_def shallow using r0 by (simp add: rate depth)
  have lowest: "np_amin draining_rate = Inr (Finite (- rate64))"
    unfolding rate using r0 by (simp add: np_amin_def fl_min_def)
  have len: "length (h alpha_one_run) = 9" by (simp add: alpha_one_run_fields)
  have l: "limit_dt_across_grid (alpha alpha_one_run) (Finite D) (model_duration alpha_one_run)
           (h alpha_one_run) draining_rate = Inr (Finite drain64)"
    unfolding limit_dt_across_grid_def lowest ttd shallow
    using D drain64_bounds r0
    by (simp add: alpha_one_run_fields(1,3) len bind_err_def Let_def np_amin_def fl_min_def)
  have u: "update_depth (get_active_cell_node_ids (closed_raster 10)) (Finite drain64)
           (h alpha_one_run) draining_rate
          = Inr ((h alpha_one_run)[4 := Finite (- (1 / 2 ^ 62))])"
    by (simp add: update_depth_def closed_raster_def) (simp add: rate depth)
  show ?thesis using c l u h_init64_pos by (auto simp: alpha_one_run_fields)
qed

text \<open>
  The same arithmetic in a whole pass: the first pass of \<open>flow_across_grid\<close> on
  \<open>drain_object\<close> ends with the depth \<open>-2^-62\<close> at the interior node.
\<close>

lemma drain_object_first_pass:
  "\<exists>s'. across_grid_step (closed_raster 10) flat_z
            (flow_across_grid_setup (closed_raster 10) no_run_kwds drain_object) = Inr s'
      \<and> h s' = (replicate 9 (Finite h_init64))[4 := Finite (- (1 / 2 ^ 62))]"
proof -
  define s where "s = flow_across_grid_setup (closed_raster 10) no_run_kwds drain_object"
  have f: "alpha s = 1" "rainfall_intensity s = - (317 / 10000)"
    "rainfall_duration s = 1" "model_duration s = Finite 1" "elapsed_time s = Finite 0"
    "q s = []" "h s = replicate 9 (Finite h_init64)"
    by (simp_all add: s_def drain_object_def flow_across_grid_setup_def
        OverlandFlow_init_def no_kwds_def no_run_kwds_def pop_def closed_raster_def Let_def)
  have "np_amax (h s) = Inr (Finite h_init64)" by (simp add: f np_amax_replicate9)
  from courant_alpha_one [OF this f(1)] obtain D where
    c: "courant_step (closed_raster 10) s = Inr (Finite D)" and D: "98 \<le> D" by blast
  have r0: "0 < rate64" by (simp add: rate64_def)
  have rate: "depth_rate (- (317 / 10000)) (replicate 9 (Finite 0))
                = replicate 9 (Finite (- rate64))"
    by (simp add: depth_rate_def fl_sub_def)
  have shallow: "shallowing_locations (replicate 9 (Finite (- rate64)))
                   = [0, 1, 2, 3, 4, 5, 6, 7, 8]"
    using r0 by (simp add: shallowing_locations_def upt_rec numeral_eq_Suc)
  have ttd: "time_to_drain (replicate 9 (Finite h_init64)) (replicate 9 (Finite (- rate64)))
               = replicate 9 (Finite drain64)"
    unfolding time_to_drain_def shallow using r0 by (simp add: numeral_eq_Suc)
  have lim: "limit_dt_across_grid 1 (Finite D) (Finite 1) (replicate 9 (Finite h_init64))
               (replicate 9 (Finite (- rate64))) = Inr (Finite drain64)"
    unfolding limit_dt_across_grid_def np_amin_replicate9 ttd shallow
    using D drain64_bounds r0
    by (simp add: bind_err_def Let_def np_amin_def fl_min_def)
  define x :: real where "x = - (1 / 2 ^ 62)"
  have upd: "update_depth [4] (Finite drain64) (replicate 9 (Finite h_init64))
               (replicate 9 (Finite (- rate64)))
               = Inr ((replicate 9 (Finite h_init64))[4 := Finite x])"
    by (simp add: update_depth_def x_def)
  have w: "\<exists>w. np_zip fl_add ((replicate 9 (Finite h_init64))[4 := Finite x]) flat_z = Inr w"
    by (simp add: np_zip_def flat_z_def)
  then obtain w' where w': "np_zip fl_add
      ((replicate 9 (Finite h_init64))[4 := Finite x]) flat_z = Inr w'"
    by blast
  obtain t where t: "update_tau (closed_raster 10) s [] (replicate 9 (Finite 0))
      ((replicate 9 (Finite h_init64))[4 := Finite x]) = Inr t"
    using update_tau_no_links by blast
  have "across_grid_step (closed_raster 10) flat_z s
      = Inr (s\<lparr>q := [], dqds := replicate 9 (Finite 0),
               rainfall_intensity := - (317 / 10000),
               dhdt := replicate 9 (Finite (- rate64)),
               h := (replicate 9 (Finite h_init64))[4 := Finite x], tau := t,
               elapsed_time := Finite drain64\<rparr>)"
    unfolding across_grid_step_def c advance_depth_def
    by (simp add: bind_err_def Let_def f np_zip_flat w' closed_raster_fields update_q_no_links
        np_zip_def [of fl_sub "[]" "[]"] current_rainfall_def rate lim upd t)
  then show ?thesis unfolding s_def x_def by simp
qed

lemma np_amax_stalled:
  "np_amax ((replicate 9 (Finite h_init64))[4 := Finite 0]) = Inr (Finite h_init64)"
  using h_init64_pos by (simp add: np_amax_def numeral_eq_Suc fl_max_def)

lemma loss_rate:
  "depth_rate (- (1 / 1000)) (replicate 9 (Finite 0)) = replicate 9 (Finite (- h_init64))"
  by (simp add: depth_rate_def fl_sub_def)

lemma shallowing_loss:
  "shallowing_locations (replicate 9 (Finite (- h_init64))) = [0, 1, 2, 3, 4, 5, 6, 7, 8]"
  using h_init64_pos by (simp add: shallowing_locations_def upt_rec numeral_eq_Suc)

lemma limit_dt_loss_start:
  assumes "1 \<le> D"
  shows "limit_dt_across_grid 1 (Finite D) (Finite 10) (replicate 9 (Finite h_init64))
           (replicate 9 (Finite (- h_init64))) = Inr (Finite 1)"
proof -
  have ttd: "time_to_drain (replicate 9 (Finite h_init64)) (replicate 9 (Finite (- h_init64)))
               = replicate 9 (Finite 1)"
    unfolding time_to_drain_def shallowing_loss using h_init64_pos
    by (simp add: numeral_eq_Suc)
  show ?thesis
    unfolding limit_dt_across_grid_def np_amin_replicate9 ttd shallowing_loss
    using assms h_init64_pos
    by (simp add: bind_err_def Let_def np_amin_def fl_min_def)
qed

lemma limit_dt_stalled:
  assumes "0 \<le> D"
  shows "limit_dt_across_grid 1 (Finite D) (Finite 10)
           ((replicate 9 (Finite h_init64))[4 := Finite 0])
           (replicate 9 (Finite (- h_init64))) = Inr (Finite 0)"
proof -
  have ttd: "time_to_drain ((replicate 9 (Finite h_init64))[4 := Finite 0])
               (replicate 9 (Finite (- h_init64)))
               = (replicate 9 (Finite 1))[4 := Finite 0]"
    unfolding time_to_drain_def shallowing_loss using h_init64_pos
    by (simp add: numeral_eq_Suc)
  have soonest: "np_amin ((replicate 9 (Finite 1))[4 := Finite 0]) = Inr (Finite 0)"
    by (simp add: np_amin_def numeral_eq_Suc fl_min_def)
  show ?thesis
    unfolding limit_dt_across_grid_def np_amin_replicate9 ttd soonest shallowing_loss
    using assms h_init64_pos
    by (simp add: bind_err_def Let_def np_amin_def fl_min_def)
qed

lemma update_depth_loss_start:
  "update_depth [4] (Finite 1) (replicate 9 (Finite h_init64))
     (replicate 9 (Finite (- h_init64)))
     = Inr ((replicate 9 (Finite h_init64))[4 := Finite 0])"
  by (simp add: update_depth_def)

lemma update_depth_stalled:
  "update_depth [4] (Finite 0) ((replicate 9 (Finite h_init64))[4 := Finite 0])
     (replicate 9 (Finite (- h_init64)))
     = Inr ((replicate 9 (Finite h_init64))[4 := Finite 0])"
  by (simp add: update_depth_def)

lemma loss_start_step:
  assumes "loss_start s"
  shows "\<exists>s'. across_grid_step (closed_raster 10) flat_z s = Inr s' \<and> stalled_state s'"
proof -
  from assms have f: "alpha s = 1" "rainfall_intensity s = - (1 / 1000)"
    "rainfall_duration s = 10" "model_duration s = Finite 10" "elapsed_time s = Finite 0"
    "q s = []" "h s = replicate 9 (Finite h_init64)"
    by (simp_all add: loss_start_def)
  have "np_amax (h s) = Inr (Finite h_init64)" by (simp add: f np_amax_replicate9)
  from courant_alpha_one [OF this f(1)] obtain D where
    c: "courant_step (closed_raster 10) s = Inr (Finite D)" and D: "98 \<le> D" by blast
  have D1: "1 \<le> D" using D by simp
  obtain t where t: "update_tau (closed_raster 10) s [] (replicate 9 (Finite 0))
      ((replicate 9 (Finite h_init64))[4 := Finite 0]) = Inr t"
    using update_tau_no_links by blast
  have "across_grid_step (closed_raster 10) flat_z s
      = Inr (s\<lparr>q := [], dqds := replicate 9 (Finite 0), rainfall_intensity := - (1 / 1000),
               dhdt := replicate 9 (Finite (- h_init64)),
               h := (replicate 9 (Finite h_init64))[4 := Finite 0], tau := t,
               elapsed_time := Finite 1\<rparr>)"
    unfolding across_grid_step_def c advance_depth_def
    by (simp add: bind_err_def Let_def f np_zip_flat closed_raster_fields update_q_no_links
        np_zip_def [of fl_sub "[]" "[]"] current_rainfall_def loss_rate
        limit_dt_loss_start [OF D1] update_depth_loss_start t)
  then show ?thesis by (simp add: stalled_state_def f)
qed

lemma stalled_state_step:
  assumes "stalled_state s"
  shows "\<exists>s'. across_grid_step (closed_raster 10) flat_z s = Inr s' \<and> stalled_state s'"
proof -
  from assms have f: "alpha s = 1" "rainfall_intensity s = - (1 / 1000)"
    "rainfall_duration s = 10" "model_duration s = Finite 10" "elapsed_time s = Finite 1"
    "q s = []" "h s = (replicate 9 (Finite h_init64))[4 := Finite 0]"
    by (simp_all add: stalled_state_def)
  have "np_amax (h s) = Inr (Finite h_init64)" by (simp only: f np_amax_stalled)
  from courant_alpha_one [OF this f(1)] obtain D where
    c: "courant_step (closed_raster 10) s = Inr (Finite D)" and D: "98 \<le> D" by blast
  have D0: "0 \<le> D" using D by simp
  obtain t where t: "update_tau (closed_raster 10) s [] (replicate 9 (Finite 0))
      ((replicate 9 (Finite h_init64))[4 := Finite 0]) = Inr t"
    using update_tau_no_links by blast
  have "across_grid_step (closed_raster 10) flat_z s
      = Inr (s\<lparr>q := [], dqds := replicate 9 (Finite 0), rainfall_intensity := - (1 / 1000),
               dhdt := replicate 9 (Finite (- h_init64)),
               h := (replicate 9 (Finite h_init64))[4 := Finite 0], tau := t,
               elapsed_time := Finite 1\<rparr>)"
    unfolding across_grid_step_def c advance_depth_def
    by (simp add: bind_err_def Let_def f np_zip_flat closed_raster_fields update_q_no_links
        np_zip_def [of fl_sub "[]" "[]"] current_rainfall_def loss_rate
        limit_dt_stalled [OF D0] update_depth_stalled t)
  then show ?thesis by (simp add: stalled_state_def f)
qed

lemma stalled_loop_aux:
  assumes "across_grid_loop grd z s = Some r"
  shows "\<not> (grd = closed_raster 10 \<and> z = flat_z \<and> stalled_state s)"
proof (rule across_grid_loop.raw_induct
    [where P = "\<lambda>grd z s r. \<not> (grd = closed_raster 10 \<and> z = flat_z \<and> stalled_state s)",
      rotated, OF assms])
  fix loop grd z s r
  assume IH: "\<And>grd z s r. loop grd z s = Some r
                \<Longrightarrow> \<not> (grd = closed_raster 10 \<and> z = flat_z \<and> stalled_state s)"
    and body: "(if fl_less (elapsed_time s) (model_duration s) then
                  (case across_grid_step grd z s of
                     Inl e \<Rightarrow> Some (Inl e)
                   | Inr s' \<Rightarrow> loop grd z s')
                else Some (Inr s)) = Some r"
  show "\<not> (grd = closed_raster 10 \<and> z = flat_z \<and> stalled_state s)"
  proof
    assume a: "grd = closed_raster 10 \<and> z = flat_z \<and> stalled_state s"
    then have st: "stalled_state s" by simp
    from stalled_state_step [OF st] obtain s' where
      step: "across_grid_step (closed_raster 10) flat_z s = Inr s'" and st': "stalled_state s'"
      by blast
    have "fl_less (elapsed_time s) (model_duration s)"
      using st by (simp add: stalled_state_def)
    with body a step have "loop (closed_raster 10) flat_z s' = Some r" by simp
    from IH [OF this] st' show False by simp
  qed
qed

lemma loss_object_start:
  "loss_start (flow_across_grid_setup (closed_raster 10) no_run_kwds loss_object)"
  by (simp add: loss_start_def loss_object_def flow_across_grid_setup_def
      OverlandFlow_init_def no_kwds_def no_run_kwds_def pop_def closed_raster_def Let_def)

text \<open>
  Claim C6 against the code. The object with \<open>alpha = 1\<close> and a net loss of 1 mm/s for
  10 s, on the closed raster. In the first pass every node would drain in 1 s, the limiter
  sets \<open>dt = 1\<close>, and the interior node becomes dry. From then on the time to drain of the
  interior node is 0, so the limiter sets \<open>dt = 0\<close> in every pass: neither the clock
  (1 s, below the model duration of 10 s) nor a depth changes again, while the eight
  boundary nodes keep the depth 0.001. The loop never exits.
\<close>

theorem loss_run_never_exits:
  "flow_across_grid (closed_raster 10) flat_z no_run_kwds loss_object = None
   \<and> (\<exists>s1 s2. across_grid_step (closed_raster 10) flat_z
                  (flow_across_grid_setup (closed_raster 10) no_run_kwds loss_object) = Inr s1
        \<and> across_grid_step (closed_raster 10) flat_z s1 = Inr s2
        \<and> elapsed_time s1 = Finite 1 \<and> elapsed_time s2 = Finite 1
        \<and> model_duration s2 = Finite 10
        \<and> h s2 = h s1 \<and> h s1 ! 0 = Finite h_init64 \<and> 0 < h_init64)"
proof -
  define s0 where "s0 = flow_across_grid_setup (closed_raster 10) no_run_kwds loss_object"
  have start: "loss_start s0" unfolding s0_def by (rule loss_object_start)
  from loss_start_step [OF start] obtain s1 where
    step1: "across_grid_step (closed_raster 10) flat_z s0 = Inr s1" and st1: "stalled_state s1"
    by blast
  from stalled_state_step [OF st1] obtain s2 where
    step2: "across_grid_step (closed_raster 10) flat_z s1 = Inr s2" and st2: "stalled_state s2"
    by blast
  have "across_grid_loop (closed_raster 10) flat_z s1 = None"
  proof (cases "across_grid_loop (closed_raster 10) flat_z s1")
    case None then show ?thesis .
  next
    case (Some r)
    from stalled_loop_aux [OF Some] st1 show ?thesis by simp
  qed
  moreover have "fl_less (elapsed_time s0) (model_duration s0)"
    using start by (simp add: loss_start_def)
  ultimately have "across_grid_loop (closed_raster 10) flat_z s0 = None"
    using step1 by (subst across_grid_loop.simps) simp
  then have "flow_across_grid (closed_raster 10) flat_z no_run_kwds loss_object = None"
    by (simp add: flow_across_grid_def s0_def)
  moreover have "h s2 = h s1" "h s1 ! 0 = Finite h_init64" "elapsed_time s1 = Finite 1"
    "elapsed_time s2 = Finite 1" "model_duration s2 = Finite 10"
    using st1 st2 by (simp_all add: stalled_state_def)
  ultimately show ?thesis using step1 step2 h_init64_pos unfolding s0_def by blast
qed

text \<open>
  An infinite Courant step need not reach the fields. On the all-dry object with a net loss
  every node has a negative depth rate and the time to drain 0, so the limiter sets
  \<open>dt = min(inf, 0, 10) = 0\<close>: every field stays finite, the clock stays at 0, and the
  loop never exits.
\<close>

lemma dry_loss_state_step:
  assumes "dry_loss_state s"
  shows "\<exists>s'. across_grid_step (closed_raster 10) flat_z s = Inr s' \<and> dry_loss_state s'"
proof -
  from assms have f: "alpha s = 1 / 5" "rainfall_intensity s = - (1 / 1000)"
    "rainfall_duration s = 10" "model_duration s = Finite 10" "elapsed_time s = Finite 0"
    "q s = []" "h s = replicate 9 (Finite 0)"
    by (simp_all add: dry_loss_state_def)
  have c: "courant_step (closed_raster 10) s = Inr PosInf"
    by (simp add: courant_step_def f np_amax_replicate9 bind_err_def
        closed_raster_def self_g_def sign_inf_def)
  have w: "np_zip fl_add (replicate 9 (Finite 0)) flat_z = Inr (replicate 9 (Finite 0))"
    by (simp add: np_zip_def flat_z_def)
  have ttd: "time_to_drain (replicate 9 (Finite 0)) (replicate 9 (Finite (- h_init64)))
               = replicate 9 (Finite 0)"
    unfolding time_to_drain_def shallowing_loss using h_init64_pos
    by (simp add: numeral_eq_Suc)
  have lim: "limit_dt_across_grid (1 / 5) PosInf (Finite 10) (replicate 9 (Finite 0))
               (replicate 9 (Finite (- h_init64))) = Inr (Finite 0)"
    unfolding limit_dt_across_grid_def np_amin_replicate9 ttd shallowing_loss
    using h_init64_pos
    by (simp add: bind_err_def Let_def np_amin_def fl_min_def)
  have upd: "update_depth [4] (Finite 0) (replicate 9 (Finite 0))
               (replicate 9 (Finite (- h_init64))) = Inr (replicate 9 (Finite 0))"
    by (simp add: update_depth_def numeral_eq_Suc)
  obtain t where t: "update_tau (closed_raster 10) s [] (replicate 9 (Finite 0))
      (replicate 9 (Finite 0)) = Inr t"
    using update_tau_no_links by blast
  have "across_grid_step (closed_raster 10) flat_z s
      = Inr (s\<lparr>q := [], dqds := replicate 9 (Finite 0), rainfall_intensity := - (1 / 1000),
               dhdt := replicate 9 (Finite (- h_init64)),
               h := replicate 9 (Finite 0), tau := t,
               elapsed_time := Finite 0\<rparr>)"
    unfolding across_grid_step_def c advance_depth_def
    by (simp add: bind_err_def Let_def f w closed_raster_fields update_q_no_links
        np_zip_def [of fl_sub "[]" "[]"] current_rainfall_def loss_rate lim upd t)
  then show ?thesis by (simp add: dry_loss_state_def f)
qed

lemma dry_loss_loop_aux:
  assumes "across_grid_loop grd z s = Some r"
  shows "\<not> (grd = closed_raster 10 \<and> z = flat_z \<and> dry_loss_state s)"
proof (rule across_grid_loop.raw_induct
    [where P = "\<lambda>grd z s r. \<not> (grd = closed_raster 10 \<and> z = flat_z \<and> dry_loss_state s)",
      rotated, OF assms])
  fix loop grd z s r
  assume IH: "\<And>grd z s r. loop grd z s = Some r
                \<Longrightarrow> \<not> (grd = closed_raster 10 \<and> z = flat_z \<and> dry_loss_state s)"
    and body: "(if fl_less (elapsed_time s) (model_duration s) then
                  (case across_grid_step grd z s of
                     Inl e \<Rightarrow> Some (Inl e)
                   | Inr s' \<Rightarrow> loop grd z s')
                else Some (Inr s)) = Some r"
  show "\<not> (grd = closed_raster 10 \<and> z = flat_z \<and> dry_loss_state s)"
  proof
    assume a: "grd = closed_raster 10 \<and> z = flat_z \<and> dry_loss_state s"
    then have st: "dry_loss_state s" by simp
    from dry_loss_state_step [OF st] obtain s' where
      step: "across_grid_step (closed_raster 10) flat_z s = Inr s'" and st': "dry_loss_state s'"
      by blast
    have "fl_less (elapsed_time s) (model_duration s)"
      using st by (simp add: dry_loss_state_def)
    with body a step have "loop (closed_raster 10) flat_z s' = Some r" by simp
    from IH [OF this] st' show False by simp
  qed
qed

lemma dry_loss_run_never_exits:
  "flow_across_grid (closed_raster 10) flat_z no_run_kwds dry_loss_object = None"
proof -
  have "dry_loss_state (flow_across_grid_setup (closed_raster 10) no_run_kwds dry_loss_object)"
    by (simp add: dry_loss_state_def dry_loss_object_def flow_across_grid_setup_def
        OverlandFlow_init_def no_kwds_def no_run_kwds_def pop_def closed_raster_def Let_def)
  then show ?thesis
    unfolding flow_across_grid_def
    by (cases "across_grid_loop (closed_raster 10) flat_z
                 (flow_across_grid_setup (closed_raster 10) no_run_kwds dry_loss_object)")
       (auto dest: dry_loss_loop_aux)
qed

end
